theory Spec2Isabelle
  imports Complex_Main "HOL-Library.Sublist" "HOL-Library.Multiset" "HOL-Library.AList"
begin

section \<open>Values, rows and collaborators\<close>

text \<open>
  The routes of \<^verbatim>\<open>src/routes/compare.js\<close> and \<^verbatim>\<open>src/routes/search.js\<close> are
  embedded as functions of what their collaborators (the storage functions
  \<^verbatim>\<open>getRow\<close>/\<^verbatim>\<open>getRows\<close> and \<^verbatim>\<open>cacheService\<close>) answer. JavaScript numbers are
  modelled as rationals: arithmetic and comparisons are exact, IEEE rounding and
  \<^verbatim>\<open>NaN\<close> arithmetic are not modelled, so a sum, a difference or a mean of fractions
  here can differ in the last bits from the number the code computes (the sign of a
  difference and the order of two numbers cannot). A numeric column that is \<^verbatim>\<open>null\<close> or missing
  in a row is \<open>None\<close>.
\<close>

text \<open>
  \<^verbatim>\<open>v || d\<close> on a number-or-null \<open>v\<close>: \<^verbatim>\<open>null\<close>, \<^verbatim>\<open>undefined\<close> and \<^verbatim>\<open>0\<close> are falsy and
  give \<open>d\<close>; any other number gives itself.
\<close>

definition js_or :: "rat option \<Rightarrow> rat \<Rightarrow> rat" where
  "js_or v d = (case v of None \<Rightarrow> d | Some x \<Rightarrow> if x = 0 then d else x)"

text \<open>
  A row of \<^verbatim>\<open>player_stats\<close>: its \<^verbatim>\<open>username\<close> and its numeric columns by name
  (\<^verbatim>\<open>total_pp\<close>, \<^verbatim>\<open>weighted_pp\<close>, \<^verbatim>\<open>country_rank\<close>, ...). \<open>col p c\<close> is \<^verbatim>\<open>p[c]\<close> for the
  name \<open>c\<close> of a numeric column, present or not. It is not \<^verbatim>\<open>p[c]\<close> for
  \<^verbatim>\<open>username\<close>, for another column that holds text, or for the name of a property
  that the row inherits from \<^verbatim>\<open>Object.prototype\<close>: there the code reads a string or a
  function, which this model does not hold.
\<close>

record player =
  username :: string
  columns :: "(string \<times> rat) list"

definition col :: "player \<Rightarrow> string \<Rightarrow> rat option" where
  "col p c = map_of (columns p) c"

text \<open>
  A row of \<^verbatim>\<open>algeria_top50\<close> (a score on a beatmap): \<^verbatim>\<open>rank\<close>, \<^verbatim>\<open>score\<close> and
  \<^verbatim>\<open>accuracy\<close> are numbers, \<^verbatim>\<open>pp\<close> and \<^verbatim>\<open>max_combo\<close> may be \<^verbatim>\<open>null\<close>.
\<close>

record score_row =
  rank :: rat
  score :: rat
  accuracy :: rat
  pp :: "rat option"
  max_combo :: "rat option"

text \<open>
  A row of the skill query (\<^verbatim>\<open>skill_type, AVG(skill_value) as avg_skill\<close>); \<open>avg_skill\<close>
  is the number \<^verbatim>\<open>parseFloat(s.avg_skill)\<close> yields.
\<close>

record skill_row =
  skill_type :: string
  avg_skill :: rat

text \<open>
  What a call of a collaborator does: it raises (the awaited promise rejects) or it
  returns a value.
\<close>

datatype 'a outcome = Raises | Returns 'a

datatype param = PStr string | PNum rat | PNaN | PArr "string list"

text \<open>
  The calls a handler makes, in the order it issues them: a cache read of a key, a
  cache write of a key with its TTL, a storage query with its text and bound
  parameters.
\<close>

datatype event = CacheGet string | CacheSet string nat | Query string "param list"

text \<open>
  The storage collaborator \<^verbatim>\<open>require('../config/db')\<close>, typed by the table queried:
  \<^verbatim>\<open>getRow\<close> gives a row or nothing, \<^verbatim>\<open>getRows\<close> a list of rows.
\<close>

record db =
  getRow_player :: "string \<Rightarrow> param list \<Rightarrow> player option outcome"
  getRows_skill :: "string \<Rightarrow> param list \<Rightarrow> skill_row list outcome"
  getRows_score :: "string \<Rightarrow> param list \<Rightarrow> score_row list outcome"

text \<open>
  The cache collaborator \<^verbatim>\<open>require('../services/cache')\<close>, for a route whose cached
  payload has type \<open>'d\<close>. A read that returns a falsy value (a miss) is \<open>Returns None\<close>.
\<close>

record 'd cacheService =
  generateKey :: "string \<Rightarrow> string list \<Rightarrow> string"
  cache_get :: "string \<Rightarrow> 'd option outcome"
  cache_set :: "string \<Rightarrow> 'd \<Rightarrow> nat \<Rightarrow> unit outcome"

text \<open>
  A response: the HTTP status and the JSON body, \<^verbatim>\<open>{success: true, data}\<close> or
  \<^verbatim>\<open>{success: false, error}\<close>.
\<close>

datatype 'd body = Success 'd | Failure string

type_synonym 'd response = "nat \<times> 'd body"

definition internal_error :: "'d response" where
  "internal_error = (500, Failure ''Internal server error'')"

text \<open>The template literal \<^verbatim>\<open>`%${username}%`\<close>.\<close>

definition wrap :: "string \<Rightarrow> string" where
  "wrap u = ''%'' @ u @ ''%''"

section \<open>Comparing two players: \<^verbatim>\<open>GET /:username1/:username2\<close>\<close>

record stat =
  player1 :: rat
  player2 :: rat
  difference :: rat

record statComparison =
  totalPP :: stat
  weightedPP :: stat
  accuracy_stat :: stat
  firstPlaces :: stat
  totalScores :: stat
  countryRank :: stat

record compare_data =
  data_player1 :: "player \<times> score_row list"
  data_player2 :: "player \<times> score_row list"
  skillComparison :: "(string \<times> stat) list"
  stats :: statComparison

definition skill_stat :: "skill_row list \<Rightarrow> skill_row list \<Rightarrow> string \<Rightarrow> stat" where
  "skill_stat skills1 skills2 skill =
    (let skill1 = find (\<lambda>s. skill_type s = skill) skills1;
         skill2 = find (\<lambda>s. skill_type s = skill) skills2
     in \<lparr> player1 = (case skill1 of Some s \<Rightarrow> avg_skill s | None \<Rightarrow> 0),
          player2 = (case skill2 of Some s \<Rightarrow> avg_skill s | None \<Rightarrow> 0),
          difference = (case skill1 of Some s \<Rightarrow> avg_skill s | None \<Rightarrow> 0)
                     - (case skill2 of Some s \<Rightarrow> avg_skill s | None \<Rightarrow> 0) \<rparr>)"

definition skill_comparison :: "skill_row list \<Rightarrow> skill_row list \<Rightarrow> (string \<times> stat) list" where
  "skill_comparison skills1 skills2 =
    map (\<lambda>skill. (skill, skill_stat skills1 skills2 skill))
      [''aim'', ''speed'', ''accuracy'', ''reading'', ''consistency'']"

definition stat_comparison :: "player \<Rightarrow> player \<Rightarrow> statComparison" where
  "stat_comparison p1 p2 =
    \<lparr> totalPP = \<lparr> player1 = js_or (col p1 ''total_pp'') 0,
                  player2 = js_or (col p2 ''total_pp'') 0,
                  difference = js_or (col p1 ''total_pp'') 0 - js_or (col p2 ''total_pp'') 0 \<rparr>,
      weightedPP = \<lparr> player1 = js_or (col p1 ''weighted_pp'') 0,
                     player2 = js_or (col p2 ''weighted_pp'') 0,
                     difference = js_or (col p1 ''weighted_pp'') 0 - js_or (col p2 ''weighted_pp'') 0 \<rparr>,
      accuracy_stat = \<lparr> player1 = js_or (col p1 ''accuracy_avg'') 0,
                        player2 = js_or (col p2 ''accuracy_avg'') 0,
                        difference = js_or (col p1 ''accuracy_avg'') 0 - js_or (col p2 ''accuracy_avg'') 0 \<rparr>,
      firstPlaces = \<lparr> player1 = js_or (col p1 ''first_places'') 0,
                      player2 = js_or (col p2 ''first_places'') 0,
                      difference = js_or (col p1 ''first_places'') 0 - js_or (col p2 ''first_places'') 0 \<rparr>,
      totalScores = \<lparr> player1 = js_or (col p1 ''total_scores'') 0,
                      player2 = js_or (col p2 ''total_scores'') 0,
                      difference = js_or (col p1 ''total_scores'') 0 - js_or (col p2 ''total_scores'') 0 \<rparr>,
      countryRank = \<lparr> player1 = js_or (col p1 ''country_rank'') 999999,
                      player2 = js_or (col p2 ''country_rank'') 999999,
                      difference = js_or (col p2 ''country_rank'') 999999
                                 - js_or (col p1 ''country_rank'') 999999 \<rparr> \<rparr>"

definition assemble :: "player \<Rightarrow> player \<Rightarrow> skill_row list \<Rightarrow> skill_row list \<Rightarrow>
    score_row list \<Rightarrow> score_row list \<Rightarrow> compare_data" where
  "assemble p1 p2 skills1 skills2 scores1 scores2 =
    \<lparr> data_player1 = (p1, scores1),
      data_player2 = (p2, scores2),
      skillComparison = skill_comparison skills1 skills2,
      stats = stat_comparison p1 p2 \<rparr>"

definition player_sql :: string where
  "player_sql = ''SELECT * FROM player_stats WHERE username ILIKE $1''"

definition skills_sql :: string where
  "skills_sql = ''\<newline>            SELECT skill_type, AVG(skill_value) as avg_skill\<newline>            FROM skill_tracking \<newline>            WHERE username ILIKE $1\<newline>            GROUP BY skill_type\<newline>          ''"

definition top_scores_sql :: string where
  "top_scores_sql = ''\<newline>            SELECT * FROM algeria_top50 \<newline>            WHERE username ILIKE $1 \<newline>            ORDER BY pp DESC \<newline>            LIMIT 10\<newline>          ''"

text \<open>
  The handler. Each \<^verbatim>\<open>Promise.all\<close> issues all its queries before it is awaited, and
  rejects when one of them does; every rejection inside the \<^verbatim>\<open>try\<close> block reaches
  the one \<^verbatim>\<open>catch\<close>, which answers 500.
\<close>

definition compare_handler :: "compare_data cacheService \<Rightarrow> db \<Rightarrow> string \<Rightarrow> string \<Rightarrow>
    compare_data response \<times> event list" where
  "compare_handler cache d username1 username2 =
    (let cacheKey = generateKey cache ''compare'' [username1, username2];
         log0 = [CacheGet cacheKey]
     in case cache_get cache cacheKey of
          Raises \<Rightarrow> (internal_error, log0)
        | Returns (Some data) \<Rightarrow> ((200, Success data), log0)
        | Returns None \<Rightarrow>
            (let log1 = log0 @ [Query player_sql [PStr (wrap username1)],
                               Query player_sql [PStr (wrap username2)]]
             in case (getRow_player d player_sql [PStr (wrap username1)],
                      getRow_player d player_sql [PStr (wrap username2)]) of
                  (Returns (Some p1), Returns (Some p2)) \<Rightarrow>
                    (let log2 = log1 @ [Query skills_sql [PStr (wrap username1)],
                                       Query skills_sql [PStr (wrap username2)],
                                       Query top_scores_sql [PStr (wrap username1)],
                                       Query top_scores_sql [PStr (wrap username2)]]
                     in case (getRows_skill d skills_sql [PStr (wrap username1)],
                              getRows_skill d skills_sql [PStr (wrap username2)],
                              getRows_score d top_scores_sql [PStr (wrap username1)],
                              getRows_score d top_scores_sql [PStr (wrap username2)]) of
                          (Returns skills1, Returns skills2, Returns scores1, Returns scores2) \<Rightarrow>
                            (let data = assemble p1 p2 skills1 skills2 scores1 scores2;
                                 log3 = log2 @ [CacheSet cacheKey 600]
                             in case cache_set cache cacheKey data 600 of
                                  Raises \<Rightarrow> (internal_error, log3)
                                | Returns u \<Rightarrow> ((200, Success data), log3))
                        | _ \<Rightarrow> (internal_error, log2))
                | (Returns p1, Returns p2) \<Rightarrow>
                    ((404, Failure ''One or both players not found''), log1)
                | _ \<Rightarrow> (internal_error, log1)))"

section \<open>Comparing two players on a beatmap: \<^verbatim>\<open>GET /:username1/:username2/beatmap/:beatmapId\<close>\<close>

record differences =
  diff_rank :: rat
  diff_score :: rat
  diff_accuracy :: rat
  diff_pp :: rat
  diff_maxCombo :: rat

record side =
  side_username :: string
  side_score :: "score_row option"
  hasScore :: bool

record 'b beatmap_comparison =
  beatmap :: "'b option"
  side1 :: side
  side2 :: side
  winner :: string
  differences :: "differences option"

text \<open>
  The handler after its three fetches have returned \<open>score1\<close>, \<open>score2\<close> and
  \<open>beatmapInfo\<close> (a rejected fetch answers 500 before this point).
\<close>

definition beatmap_handler :: "string \<Rightarrow> string \<Rightarrow> score_row option \<Rightarrow> score_row option \<Rightarrow>
    'b option \<Rightarrow> 'b beatmap_comparison response" where
  "beatmap_handler username1 username2 score1 score2 beatmapInfo =
    (case (score1, score2) of
       (None, None) \<Rightarrow> (404, Failure ''Neither player has a score on this beatmap'')
     | (Some s1, Some s2) \<Rightarrow>
         (200, Success
           \<lparr> beatmap = beatmapInfo,
             side1 = \<lparr> side_username = username1, side_score = score1, hasScore = True \<rparr>,
             side2 = \<lparr> side_username = username2, side_score = score2, hasScore = True \<rparr>,
             winner = (if rank s1 < rank s2 then username1
                       else if rank s2 < rank s1 then username2
                       else ''tie''),
             differences = Some
               \<lparr> diff_rank = rank s1 - rank s2,
                 diff_score = score s1 - score s2,
                 diff_accuracy = accuracy s1 - accuracy s2,
                 diff_pp = js_or (pp s1) 0 - js_or (pp s2) 0,
                 diff_maxCombo = js_or (max_combo s1) 0 - js_or (max_combo s2) 0 \<rparr> \<rparr>)
     | (Some s1, None) \<Rightarrow>
         (200, Success
           \<lparr> beatmap = beatmapInfo,
             side1 = \<lparr> side_username = username1, side_score = score1, hasScore = True \<rparr>,
             side2 = \<lparr> side_username = username2, side_score = score2, hasScore = False \<rparr>,
             winner = username1,
             differences = None \<rparr>)
     | (None, Some s2) \<Rightarrow>
         (200, Success
           \<lparr> beatmap = beatmapInfo,
             side1 = \<lparr> side_username = username1, side_score = score1, hasScore = False \<rparr>,
             side2 = \<lparr> side_username = username2, side_score = score2, hasScore = True \<rparr>,
             winner = username2,
             differences = None \<rparr>))"

section \<open>Comparing several players: \<^verbatim>\<open>POST /multiple\<close>\<close>

text \<open>
  \<^verbatim>\<open>Array.prototype.sort\<close> with a comparator is stable: \<open>a\<close> stays before \<open>b\<close> unless
  the comparator says \<open>b\<close> goes first (\<open>cmp a b > 0\<close>). For a comparator that is a
  consistent order, as the difference of two numbers is, every stable sort gives the
  list that this insertion sort gives.
\<close>

fun insert_by :: "('a \<Rightarrow> 'a \<Rightarrow> rat) \<Rightarrow> 'a \<Rightarrow> 'a list \<Rightarrow> 'a list" where
  "insert_by cmp x [] = [x]"
| "insert_by cmp x (y # ys) = (if cmp x y \<le> 0 then x # y # ys else y # insert_by cmp x ys)"

definition sort_by :: "('a \<Rightarrow> 'a \<Rightarrow> rat) \<Rightarrow> 'a list \<Rightarrow> 'a list" where
  "sort_by cmp xs = foldr (insert_by cmp) xs []"

record ranking =
  rk_username :: string
  rk_value :: rat
  rk_rank :: nat

record summary =
  best :: rat
  worst :: rat
  average :: rat

record comparison =
  players :: "player list"
  metrics :: "(string \<times> summary) list"
  rankings :: "(string \<times> ranking list) list"

text \<open>The comparator of the sort: \<^verbatim>\<open>(a, b) => ...\<close> for one metric.\<close>

definition metric_cmp :: "string \<Rightarrow> player \<Rightarrow> player \<Rightarrow> rat" where
  "metric_cmp metric a b =
    (let aVal = js_or (col a metric) 0;
         bVal = js_or (col b metric) 0
     in if metric = ''avg_rank'' then aVal - bVal else bVal - aVal)"

definition sortedPlayers :: "string \<Rightarrow> player list \<Rightarrow> player list" where
  "sortedPlayers metric ps = sort_by (metric_cmp metric) ps"

definition rankings_of :: "string \<Rightarrow> player list \<Rightarrow> ranking list" where
  "rankings_of metric ps =
    map (\<lambda>(p, index). \<lparr> rk_username = username p,
                         rk_value = js_or (col p metric) 0,
                         rk_rank = index + 1 \<rparr>)
      (zip (sortedPlayers metric ps) [0 ..< length (sortedPlayers metric ps)])"

definition summary_of :: "string \<Rightarrow> player list \<Rightarrow> summary" where
  "summary_of metric ps =
    \<lparr> best = js_or (col (sortedPlayers metric ps ! 0) metric) 0,
      worst = js_or (col (sortedPlayers metric ps ! (length (sortedPlayers metric ps) - 1)) metric) 0,
      average = foldl (\<lambda>sum p. sum + js_or (col p metric) 0) 0 ps / of_nat (length ps) \<rparr>"

text \<open>
  One round of \<^verbatim>\<open>metrics.forEach\<close>: both objects get the entry of the metric
  (assigning an existing key replaces its value in place).
\<close>

definition add_metric :: "comparison \<Rightarrow> string \<Rightarrow> comparison" where
  "add_metric c metric =
    c \<lparr> rankings := AList.update metric (rankings_of metric (players c)) (rankings c),
        metrics := AList.update metric (summary_of metric (players c)) (metrics c) \<rparr>"

definition build_comparison :: "player list \<Rightarrow> string list \<Rightarrow> comparison" where
  "build_comparison ps ms = foldl add_metric \<lparr> players = ps, metrics = [], rankings = [] \<rparr> ms"

definition multiple_sql :: string where
  "multiple_sql = ''\<newline>        SELECT * FROM player_stats \<newline>        WHERE username ILIKE $1\<newline>      ''"

text \<open>
  The loop \<^verbatim>\<open>for (const username of usernames)\<close>: one awaited \<^verbatim>\<open>getRow\<close> per name,
  a row found is pushed, a name with no row is skipped. A rejected query leaves the
  loop.
\<close>

fun fetch_players :: "db \<Rightarrow> string list \<Rightarrow> player list \<Rightarrow> event list \<Rightarrow>
    player list outcome \<times> event list" where
  "fetch_players d [] ps evs = (Returns ps, evs)"
| "fetch_players d (u # us) ps evs =
    (case getRow_player d multiple_sql [PStr (wrap u)] of
       Raises \<Rightarrow> (Raises, evs @ [Query multiple_sql [PStr (wrap u)]])
     | Returns None \<Rightarrow> fetch_players d us ps (evs @ [Query multiple_sql [PStr (wrap u)]])
     | Returns (Some p) \<Rightarrow>
         fetch_players d us (ps @ [p]) (evs @ [Query multiple_sql [PStr (wrap u)]]))"

text \<open>
  The request body: \<^verbatim>\<open>usernames\<close> and \<^verbatim>\<open>metrics\<close> are arrays of strings, each
  optional with the default of the destructuring.
\<close>

record multiple_body =
  body_usernames :: "string list option"
  body_metrics :: "string list option"

definition multiple_handler :: "db \<Rightarrow> multiple_body \<Rightarrow> comparison response \<times> event list" where
  "multiple_handler d b =
    (let usernames = (case body_usernames b of None \<Rightarrow> [] | Some us \<Rightarrow> us);
         ms = (case body_metrics b of
                 None \<Rightarrow> [''weighted_pp'', ''accuracy_avg'', ''first_places'']
               | Some m \<Rightarrow> m)
     in if length usernames < 2 \<or> length usernames > 5
        then ((400, Failure ''Please provide between 2 and 5 usernames''), [])
        else (case fetch_players d usernames [] [] of
                (Raises, evs) \<Rightarrow> (internal_error, evs)
              | (Returns ps, evs) \<Rightarrow>
                  if length ps < 2
                  then ((404, Failure ''At least 2 valid players required''), evs)
                  else ((200, Success (build_comparison ps ms)), evs)))"

section \<open>Searching: \<^verbatim>\<open>GET /\<close> of \<^verbatim>\<open>src/routes/search.js\<close>\<close>

record 'r search_results =
  res_players :: "'r list option"
  res_beatmaps :: "'r list option"
  res_scores :: "'r list option"

record 'r search_payload =
  payload_query :: string
  payload_type :: string
  payload_data :: "'r search_results"

definition search_players_sql :: string where
  "search_players_sql = ''\<newline>            SELECT \<newline>              username, \<newline>              user_id, \<newline>              weighted_pp, \<newline>              first_places, \<newline>              avatar_url, \<newline>              country_rank,\<newline>              accuracy_avg,\<newline>              total_scores\<newline>            FROM player_stats\<newline>            WHERE username ILIKE $1 AND is_active = true\<newline>            ORDER BY weighted_pp DESC\<newline>            LIMIT $2\<newline>          ''"

definition search_beatmaps_sql :: string where
  "search_beatmaps_sql = ''\<newline>            SELECT DISTINCT \<newline>              bm.beatmap_id, \<newline>              bm.artist, \<newline>              bm.title, \<newline>              bm.version,\<newline>              bm.difficulty_rating,\<newline>              bm.creator,\<newline>              COUNT(ats.username) as algerian_players,\<newline>              AVG(ats.accuracy) as avg_accuracy,\<newline>              MAX(ats.pp) as best_pp\<newline>            FROM beatmap_metadata bm\<newline>            LEFT JOIN algeria_top50 ats ON bm.beatmap_id = ats.beatmap_id\<newline>            WHERE bm.artist ILIKE $1 OR bm.title ILIKE $1 OR bm.version ILIKE $1 OR bm.creator ILIKE $1\<newline>            GROUP BY bm.beatmap_id, bm.artist, bm.title, bm.version, bm.difficulty_rating, bm.creator\<newline>            ORDER BY algerian_players DESC, bm.difficulty_rating DESC\<newline>            LIMIT $2\<newline>          ''"

definition search_scores_sql :: string where
  "search_scores_sql = ''\<newline>            SELECT \<newline>              beatmap_id, \<newline>              beatmap_title, \<newline>              artist, \<newline>              difficulty_name,\<newline>              username, \<newline>              rank, \<newline>              score, \<newline>              accuracy, \<newline>              mods, \<newline>              pp,\<newline>              last_updated\<newline>            FROM algeria_top50\<newline>            WHERE beatmap_title ILIKE $1 OR artist ILIKE $1 OR username ILIKE $1\<newline>            ORDER BY pp DESC\<newline>            LIMIT $2\<newline>          ''"

text \<open>
  The collaborators of the search handler: \<^verbatim>\<open>cacheService.getSearchCache\<close>,
  \<^verbatim>\<open>cacheService.cacheSearch\<close> and \<^verbatim>\<open>getRows\<close>, rows of any table having type \<open>'r\<close>.
\<close>

record 'r search_env =
  getSearchCache :: "string \<Rightarrow> string \<Rightarrow> 'r search_results option outcome"
  cacheSearch :: "string \<Rightarrow> string \<Rightarrow> 'r search_results \<Rightarrow> nat \<Rightarrow> unit outcome"
  getRows :: "string \<Rightarrow> param list \<Rightarrow> 'r list outcome"

text \<open>
  One of the three blocks \<^verbatim>\<open>if (type === 'all' || type === kind) { results.kind = await
  getRows(...) }\<close>: nothing when the type does not ask for the kind.
\<close>

definition search_block :: "'r search_env \<Rightarrow> string \<Rightarrow> string \<Rightarrow> string \<Rightarrow> param list \<Rightarrow>
    'r list option outcome" where
  "search_block env type kind sql ps =
    (if type = ''all'' \<or> type = kind
     then (case getRows env sql ps of Raises \<Rightarrow> Raises | Returns rows \<Rightarrow> Returns (Some rows))
     else Returns None)"

text \<open>
  The handler, for \<open>searchTerm\<close> = \<^verbatim>\<open>q.trim()\<close>, the \<^verbatim>\<open>type\<close> of the query string
  (\<^verbatim>\<open>'all'\<close> when absent) and \<open>limit\<close> = the value of \<^verbatim>\<open>parseInt(limit)\<close>.
\<close>

definition search_handler :: "'r search_env \<Rightarrow> string \<Rightarrow> string option \<Rightarrow> param \<Rightarrow>
    'r search_payload response" where
  "search_handler env searchTerm type_arg limit =
    (let type = (case type_arg of None \<Rightarrow> ''all'' | Some t \<Rightarrow> t);
         ps = [PStr (wrap searchTerm), limit]
     in case getSearchCache env searchTerm type of
          Raises \<Rightarrow> internal_error
        | Returns (Some data) \<Rightarrow>
            (200, Success \<lparr> payload_query = searchTerm, payload_type = type, payload_data = data \<rparr>)
        | Returns None \<Rightarrow>
            (case search_block env type ''players'' search_players_sql ps of
               Raises \<Rightarrow> internal_error
             | Returns rp \<Rightarrow>
                 (case search_block env type ''beatmaps'' search_beatmaps_sql ps of
                    Raises \<Rightarrow> internal_error
                  | Returns rb \<Rightarrow>
                      (case search_block env type ''scores'' search_scores_sql ps of
                         Raises \<Rightarrow> internal_error
                       | Returns rs \<Rightarrow>
                           (let data = \<lparr> res_players = rp, res_beatmaps = rb, res_scores = rs \<rparr>
                            in case cacheSearch env searchTerm type data 600 of
                                 Raises \<Rightarrow> internal_error
                               | Returns u \<Rightarrow>
                                   (200, Success \<lparr> payload_query = searchTerm,
                                                   payload_type = type,
                                                   payload_data = data \<rparr>))))))"

section \<open>Searching players: \<^verbatim>\<open>GET /players\<close>\<close>

text \<open>The own properties of the object literal \<^verbatim>\<open>sortColumns\<close>.\<close>

definition sortColumns :: "(string \<times> string) list" where
  "sortColumns =
    [(''pp'', ''weighted_pp DESC''),
     (''accuracy'', ''accuracy_avg DESC''),
     (''scores'', ''total_scores DESC''),
     (''firsts'', ''first_places DESC''),
     (''name'', ''username ASC'')]"

text \<open>
  An object literal inherits the properties of \<^verbatim>\<open>Object.prototype\<close>: eleven built-in
  functions and the accessor \<^verbatim>\<open>__proto__\<close>, which gives \<^verbatim>\<open>Object.prototype\<close> itself.
  Each is listed with the text that a template literal makes of the inherited value.
\<close>

definition Object_prototype :: "(string \<times> string) list" where
  "Object_prototype =
    [(''constructor'', ''function Object() { [native code] }''),
     (''__defineGetter__'', ''function __defineGetter__() { [native code] }''),
     (''__defineSetter__'', ''function __defineSetter__() { [native code] }''),
     (''hasOwnProperty'', ''function hasOwnProperty() { [native code] }''),
     (''__lookupGetter__'', ''function __lookupGetter__() { [native code] }''),
     (''__lookupSetter__'', ''function __lookupSetter__() { [native code] }''),
     (''isPrototypeOf'', ''function isPrototypeOf() { [native code] }''),
     (''propertyIsEnumerable'', ''function propertyIsEnumerable() { [native code] }''),
     (''toString'', ''function toString() { [native code] }''),
     (''valueOf'', ''function valueOf() { [native code] }''),
     (''__proto__'', ''[object Object]''),
     (''toLocaleString'', ''function toLocaleString() { [native code] }'')]"

text \<open>
  The value of \<^verbatim>\<open>obj[key]\<close> for an object literal \<open>obj\<close> whose own properties are
  strings: an own property, else an inherited one (a function or an object, both
  truthy), else \<^verbatim>\<open>undefined\<close>.
\<close>

datatype property = Undefined | Own string | Inherited string

definition get_property :: "(string \<times> string) list \<Rightarrow> string \<Rightarrow> property" where
  "get_property obj key =
    (case map_of obj key of
       Some v \<Rightarrow> Own v
     | None \<Rightarrow> (case map_of Object_prototype key of Some t \<Rightarrow> Inherited t | None \<Rightarrow> Undefined))"

definition truthy :: "property \<Rightarrow> bool" where
  "truthy v = (case v of Undefined \<Rightarrow> False | Own s \<Rightarrow> s \<noteq> [] | Inherited t \<Rightarrow> True)"

definition to_text :: "property \<Rightarrow> string" where
  "to_text v = (case v of Undefined \<Rightarrow> ''undefined'' | Own s \<Rightarrow> s | Inherited t \<Rightarrow> t)"

text \<open>
  \<^verbatim>\<open>const orderBy = sortColumns[sortBy] || sortColumns.pp\<close>, as the text that the
  template literal of the query interpolates; \<open>sortBy\<close> is the string of the query
  string, \<^verbatim>\<open>'pp'\<close> when absent.
\<close>

definition orderBy :: "string option \<Rightarrow> string" where
  "orderBy sortBy_arg =
    (let sortBy = (case sortBy_arg of None \<Rightarrow> ''pp'' | Some s \<Rightarrow> s)
     in to_text (if truthy (get_property sortColumns sortBy)
                 then get_property sortColumns sortBy
                 else get_property sortColumns ''pp''))"

definition players_search_sql :: "string option \<Rightarrow> string" where
  "players_search_sql sortBy_arg =
    ''\<newline>        SELECT \<newline>          username, \<newline>          user_id, \<newline>          weighted_pp, \<newline>          accuracy_avg,\<newline>          first_places, \<newline>          total_scores,\<newline>          avatar_url, \<newline>          country_rank,\<newline>          last_seen\<newline>        FROM player_stats\<newline>        WHERE username ILIKE $1 AND is_active = true\<newline>        ORDER BY ''
    @ orderBy sortBy_arg
    @ ''\<newline>        LIMIT $2\<newline>      ''"

text \<open>
  The query the handler issues: its text and its bound parameters, for \<open>searchTerm\<close> =
  \<^verbatim>\<open>q.trim()\<close> and \<open>limit\<close> = the value of \<^verbatim>\<open>parseInt(limit)\<close>.
\<close>

definition players_search_query :: "string \<Rightarrow> string option \<Rightarrow> param \<Rightarrow> string \<times> param list" where
  "players_search_query searchTerm sortBy_arg limit =
    (players_search_sql sortBy_arg, [PStr (wrap searchTerm), limit])"

section \<open>Advanced search: \<^verbatim>\<open>POST /advanced\<close>\<close>

text \<open>
  The query text is built by appending template literals. A template literal is kept
  as its pieces, literal text and interpolated values of \<^verbatim>\<open>paramCount\<close>; the text is
  their concatenation, a number interpolated as its decimal digits.
\<close>

datatype piece = Lit string | Idx nat

type_synonym fragment = "piece list"

definition digit_char :: "nat \<Rightarrow> char" where
  "digit_char d = ''0123456789'' ! d"

fun string_of_nat :: "nat \<Rightarrow> string" where
  "string_of_nat n =
    (if n < 10 then [digit_char n] else string_of_nat (n div 10) @ [digit_char (n mod 10)])"

fun render_piece :: "piece \<Rightarrow> string" where
  "render_piece (Lit s) = s"
| "render_piece (Idx n) = string_of_nat n"

definition render :: "fragment \<Rightarrow> string" where
  "render f = concat (map render_piece f)"

text \<open>
  The three variables of a query under construction: the text (the initial template
  literal and the literals appended by \<^verbatim>\<open>+=\<close> so far), the parameter array and
  \<^verbatim>\<open>paramCount\<close>.
\<close>

record builder =
  base :: string
  appended :: "fragment list"
  params :: "param list"
  paramCount :: nat

definition query_text :: "builder \<Rightarrow> string" where
  "query_text q = base q @ concat (map render (appended q))"

text \<open>
  The body of one \<^verbatim>\<open>if\<close>: \<^verbatim>\<open>query += `...${++paramCount}...`; params.push(v)\<close>. The
  literal may mention the incremented \<^verbatim>\<open>paramCount\<close> several times.
\<close>

definition append_clause :: "(nat \<Rightarrow> fragment) \<Rightarrow> param \<Rightarrow> builder \<Rightarrow> builder" where
  "append_clause frag v q =
    (let n = paramCount q + 1
     in q \<lparr> appended := appended q @ [frag n], params := params q @ [v], paramCount := n \<rparr>)"

text \<open>
  \<^verbatim>\<open>query += ` ORDER BY ... LIMIT ${++paramCount} OFFSET ${++paramCount}`;
  params.push(parseInt(limit), parseInt(offset))\<close>.
\<close>

definition append_pagination :: "string \<Rightarrow> param \<Rightarrow> param \<Rightarrow> builder \<Rightarrow> builder" where
  "append_pagination order_limit l off q =
    (let n1 = paramCount q + 1;
         n2 = n1 + 1
     in q \<lparr> appended := appended q @ [[Lit order_limit, Idx n1, Lit '' OFFSET '', Idx n2]],
            params := params q @ [l, off],
            paramCount := n2 \<rparr>)"

text \<open>
  The request body. Every field is optional, with the default of the destructuring.
  Numbers are JSON numbers; \<^verbatim>\<open>limit\<close> and \<^verbatim>\<open>offset\<close> are integers of magnitude at
  most \<open>2^53\<close>, the integers that a JSON number holds exactly and that \<^verbatim>\<open>parseInt\<close>
  returns unchanged. Beyond that range \<open>parseInt\<close> below is not the function of the
  code (which gives 1 for \<open>10^21\<close>).
\<close>

record filters =
  filter_type :: "string option"
  minPP :: "rat option"
  maxPP :: "rat option"
  minAccuracy :: "rat option"
  maxAccuracy :: "rat option"
  minDifficulty :: "rat option"
  maxDifficulty :: "rat option"
  mods :: "string list option"
  dateRange_start :: "string option"
  dateRange_end :: "string option"

record advanced_body =
  body_query :: "string option"
  body_filters :: "filters option"
  body_limit :: "int option"
  body_offset :: "int option"

definition parseInt :: "int \<Rightarrow> param" where
  "parseInt n = PNum (of_int n)"

definition dflt :: "'a \<Rightarrow> 'a option \<Rightarrow> 'a" where
  "dflt d v = (case v of None \<Rightarrow> d | Some x \<Rightarrow> x)"

definition no_filters :: filters where
  "no_filters = \<lparr> filter_type = None, minPP = None, maxPP = None, minAccuracy = None,
     maxAccuracy = None, minDifficulty = None, maxDifficulty = None, mods = None,
     dateRange_start = None, dateRange_end = None \<rparr>"

definition player_base :: string where
  "player_base = ''\<newline>        SELECT \<newline>          username, user_id, weighted_pp, accuracy_avg, first_places, \<newline>          total_scores, avatar_url, country_rank\<newline>        FROM player_stats\<newline>        WHERE is_active = true\<newline>      ''"

definition score_base :: string where
  "score_base = ''\<newline>        SELECT \<newline>          beatmap_id, beatmap_title, artist, difficulty_name, username,\<newline>          rank, score, accuracy, mods, pp, difficulty_rating, last_updated\<newline>        FROM algeria_top50\<newline>        WHERE 1=1\<newline>      ''"

text \<open>
  One statement \<^verbatim>\<open>if (guard) { query += `...`; params.push(value) }\<close>: the guard, the
  template literal as a function of the incremented \<^verbatim>\<open>paramCount\<close>, and the value
  pushed. A query is built by running its statements in order.
\<close>

type_synonym clause = "bool \<times> (nat \<Rightarrow> fragment) \<times> param"

definition add_clause :: "builder \<Rightarrow> clause \<Rightarrow> builder" where
  "add_clause q c = (if fst c then append_clause (fst (snd c)) (snd (snd c)) q else q)"

text \<open>
  The \<^verbatim>\<open>if\<close> statements of the block \<^verbatim>\<open>if (type === 'all' || type === 'players')\<close>,
  and the query the block builds.
\<close>

definition player_clauses :: "advanced_body \<Rightarrow> clause list" where
  "player_clauses b =
    (let searchQuery = dflt [] (body_query b);
         f = dflt no_filters (body_filters b)
     in [(searchQuery \<noteq> [],
            \<lambda>n. [Lit '' AND username ILIKE '', Idx n],
            PStr (wrap searchQuery)),
         (dflt 0 (minPP f) > 0,
            \<lambda>n. [Lit '' AND weighted_pp >= '', Idx n],
            PNum (dflt 0 (minPP f))),
         (dflt 10000 (maxPP f) < 10000,
            \<lambda>n. [Lit '' AND weighted_pp <= '', Idx n],
            PNum (dflt 10000 (maxPP f))),
         (dflt 0 (minAccuracy f) > 0,
            \<lambda>n. [Lit '' AND accuracy_avg >= '', Idx n],
            PNum (dflt 0 (minAccuracy f))),
         (dflt 1 (maxAccuracy f) < 1,
            \<lambda>n. [Lit '' AND accuracy_avg <= '', Idx n],
            PNum (dflt 1 (maxAccuracy f)))])"

definition player_query :: "advanced_body \<Rightarrow> builder" where
  "player_query b =
    append_pagination '' ORDER BY weighted_pp DESC LIMIT ''
      (parseInt (dflt 20 (body_limit b))) (parseInt (dflt 0 (body_offset b)))
      (foldl add_clause \<lparr> base = player_base, appended = [], params = [], paramCount = 0 \<rparr>
         (player_clauses b))"

text \<open>
  The \<^verbatim>\<open>if\<close> statements of the block \<^verbatim>\<open>if (type === 'all' || type === 'scores')\<close>,
  and the query the block builds. \<open>getTime s\<close> is the value of
  \<^verbatim>\<open>new Date(s).getTime()\<close>.
\<close>

definition score_clauses :: "(string \<Rightarrow> param) \<Rightarrow> advanced_body \<Rightarrow> clause list" where
  "score_clauses getTime b =
    (let searchQuery = dflt [] (body_query b);
         f = dflt no_filters (body_filters b)
     in [(searchQuery \<noteq> [],
            \<lambda>n. [Lit '' AND (beatmap_title ILIKE '', Idx n, Lit '' OR artist ILIKE '', Idx n,
                  Lit '' OR username ILIKE '', Idx n, Lit '')''],
            PStr (wrap searchQuery)),
         (dflt 0 (minPP f) > 0,
            \<lambda>n. [Lit '' AND pp >= '', Idx n],
            PNum (dflt 0 (minPP f))),
         (dflt 10000 (maxPP f) < 10000,
            \<lambda>n. [Lit '' AND pp <= '', Idx n],
            PNum (dflt 10000 (maxPP f))),
         (dflt 0 (minAccuracy f) > 0,
            \<lambda>n. [Lit '' AND accuracy >= '', Idx n],
            PNum (dflt 0 (minAccuracy f))),
         (dflt 1 (maxAccuracy f) < 1,
            \<lambda>n. [Lit '' AND accuracy <= '', Idx n],
            PNum (dflt 1 (maxAccuracy f))),
         (dflt 0 (minDifficulty f) > 0,
            \<lambda>n. [Lit '' AND difficulty_rating >= '', Idx n],
            PNum (dflt 0 (minDifficulty f))),
         (dflt 10 (maxDifficulty f) < 10,
            \<lambda>n. [Lit '' AND difficulty_rating <= '', Idx n],
            PNum (dflt 10 (maxDifficulty f))),
         (length (dflt [] (mods f)) > 0,
            \<lambda>n. [Lit '' AND mods = ANY('', Idx n, Lit '')''],
            PArr (dflt [] (mods f))),
         (dflt [] (dateRange_start f) \<noteq> [],
            \<lambda>n. [Lit '' AND last_updated >= '', Idx n],
            getTime (dflt [] (dateRange_start f))),
         (dflt [] (dateRange_end f) \<noteq> [],
            \<lambda>n. [Lit '' AND last_updated <= '', Idx n],
            getTime (dflt [] (dateRange_end f)))])"

definition score_query :: "(string \<Rightarrow> param) \<Rightarrow> advanced_body \<Rightarrow> builder" where
  "score_query getTime b =
    append_pagination '' ORDER BY pp DESC LIMIT ''
      (parseInt (dflt 20 (body_limit b))) (parseInt (dflt 0 (body_offset b)))
      (foldl add_clause \<lparr> base = score_base, appended = [], params = [], paramCount = 0 \<rparr>
         (score_clauses getTime b))"

text \<open>
  The queries the handler issues, in order: the player query when \<^verbatim>\<open>type\<close> is
  \<^verbatim>\<open>'all'\<close> or \<^verbatim>\<open>'players'\<close>, then the score query when it is \<^verbatim>\<open>'all'\<close> or
  \<^verbatim>\<open>'scores'\<close>.
\<close>

definition advanced_queries :: "(string \<Rightarrow> param) \<Rightarrow> advanced_body \<Rightarrow> (string \<times> param list) list" where
  "advanced_queries getTime b =
    (let type = dflt ''all'' (filter_type (dflt no_filters (body_filters b)))
     in (if type = ''all'' \<or> type = ''players''
         then [(query_text (player_query b), params (player_query b))] else [])
      @ (if type = ''all'' \<or> type = ''scores''
         then [(query_text (score_query getTime b), params (score_query getTime b))] else []))"

text \<open>The interpolated values of \<^verbatim>\<open>paramCount\<close> in a query, in the order of its text.\<close>

fun piece_indices :: "piece \<Rightarrow> nat list" where
  "piece_indices (Lit s) = []"
| "piece_indices (Idx n) = [n]"

definition fragment_indices :: "fragment \<Rightarrow> nat list" where
  "fragment_indices f = concat (map piece_indices f)"

definition placeholders :: "builder \<Rightarrow> nat list" where
  "placeholders q = concat (map fragment_indices (appended q))"

text \<open>
  The statements of a block whose guard holds (the filters that are present), and the
  literals they append when the first of them takes the index \<open>n\<close>.
\<close>

definition active :: "clause list \<Rightarrow> clause list" where
  "active cs = filter fst cs"

fun fragments_from :: "nat \<Rightarrow> clause list \<Rightarrow> fragment list" where
  "fragments_from n [] = []"
| "fragments_from n (c # cs) = fst (snd c) n # fragments_from (Suc n) cs"

section \<open>The storage, and inputs for the examples\<close>

text \<open>
  Modelled from the spec: the storage collaborator (\<^verbatim>\<open>getRow\<close> of \<^verbatim>\<open>../config/db\<close>,
  which is not among the source files, and the PostgreSQL table behind it). It
  accepts a query text and its ordered parameters and gives the rows found. For the
  player lookup \<^verbatim>\<open>SELECT * FROM player_stats WHERE username ILIKE $1\<close> it answers with
  the first row of the table whose username matches the bound pattern under
  \<^verbatim>\<open>ILIKE\<close>, as PostgreSQL defines it: letters match without regard to case (ASCII
  letters here), \<^verbatim>\<open>%\<close> matches any sequence of characters, \<^verbatim>\<open>_\<close> any one character,
  and a backslash makes the character after it stand for itself. The storage of the
  examples has no skill or score rows.
\<close>

definition to_lower :: "char \<Rightarrow> char" where
  "to_lower c =
    (case map_of (zip ''ABCDEFGHIJKLMNOPQRSTUVWXYZ'' ''abcdefghijklmnopqrstuvwxyz'') c of
       Some l \<Rightarrow> l
     | None \<Rightarrow> c)"

fun like :: "string \<Rightarrow> string \<Rightarrow> bool" where
  "like [] s = (s = [])"
| "like (p # ps) [] = (p = CHR ''%'' \<and> like ps [])"
| "like (p # ps) (c # cs) =
    (if p = CHR ''%'' then like ps (c # cs) \<or> like (p # ps) cs
     else if p = CHR ''_'' then like ps cs
     else if p = CHR 0x5C then (case ps of [] \<Rightarrow> False | q # qs \<Rightarrow> q = c \<and> like qs cs)
     else p = c \<and> like ps cs)"

definition ilike :: "string \<Rightarrow> string \<Rightarrow> bool" where
  "ilike pattern s = like (map to_lower pattern) (map to_lower s)"

text \<open>
  A supplied string is plain when it has none of the characters that \<^verbatim>\<open>ILIKE\<close> reads
  as more than themselves. \<open>contains u s\<close>: the string \<open>s\<close> contains \<open>u\<close>, letters
  compared without regard to case.
\<close>

definition plain :: "string \<Rightarrow> bool" where
  "plain u = (CHR ''%'' \<notin> set u \<and> CHR ''_'' \<notin> set u \<and> CHR 0x5C \<notin> set u)"

definition contains :: "string \<Rightarrow> string \<Rightarrow> bool" where
  "contains u s = sublist (map to_lower u) (map to_lower s)"

text \<open>
  A metric is within the rows modelled (a username and numeric columns) when it is
  not \<^verbatim>\<open>username\<close> and not the name of a property that a row inherits from
  \<^verbatim>\<open>Object.prototype\<close>.
\<close>

definition numeric_column :: "string \<Rightarrow> bool" where
  "numeric_column metric = (metric \<noteq> ''username'' \<and> metric \<notin> set (map fst Object_prototype))"

definition table_lookup :: "player list \<Rightarrow> string \<Rightarrow> player option" where
  "table_lookup table pattern = find (\<lambda>p. ilike pattern (username p)) table"

definition table_db :: "player list \<Rightarrow> db" where
  "table_db table =
    \<lparr> getRow_player = (\<lambda>sql ps. case ps of
                          [PStr pattern] \<Rightarrow> Returns (table_lookup table pattern)
                        | _ \<Rightarrow> Raises),
      getRows_skill = (\<lambda>sql ps. Returns []),
      getRows_score = (\<lambda>sql ps. Returns []) \<rparr>"

definition player_A :: player where
  "player_A = \<lparr> username = ''A'', columns = [(''pp'', 500)] \<rparr>"

definition player_B :: player where
  "player_B = \<lparr> username = ''B'', columns = [(''pp'', 800)] \<rparr>"

definition player_C :: player where
  "player_C = \<lparr> username = ''C'', columns = [(''pp'', 650)] \<rparr>"

definition alice :: player where
  "alice = \<lparr> username = ''Alice'', columns = [(''country_rank'', 5), (''weighted_pp'', 4200)] \<rparr>"

definition bob :: player where
  "bob = \<lparr> username = ''Bob'', columns = [(''country_rank'', 20), (''weighted_pp'', 3100)] \<rparr>"

text \<open>Two players for the metric \<^verbatim>\<open>avg_rank\<close>: one has no value, one has 3.\<close>

definition player_unranked :: player where
  "player_unranked = \<lparr> username = ''newcomer'', columns = [] \<rparr>"

definition player_ranked :: player where
  "player_ranked = \<lparr> username = ''veteran'', columns = [(''avg_rank'', 3)] \<rparr>"

text \<open>Two scores on one beatmap, of rank 1 and of rank 5.\<close>

definition score_first :: score_row where
  "score_first = \<lparr> rank = 1, score = 990000, accuracy = 99 / 100, pp = Some 300, max_combo = Some 800 \<rparr>"

definition score_fifth :: score_row where
  "score_fifth = \<lparr> rank = 5, score = 950000, accuracy = 97 / 100, pp = Some 250, max_combo = Some 700 \<rparr>"

text \<open>
  Cache services: one whose reads raise, one whose reads miss and whose writes raise,
  and one whose reads miss and whose writes return.
\<close>

definition example_key :: "string \<Rightarrow> string list \<Rightarrow> string" where
  "example_key domain parts = domain @ concat (map (\<lambda>part. '':'' @ part) parts)"

definition cache_get_raises :: "compare_data cacheService" where
  "cache_get_raises =
    \<lparr> generateKey = example_key, cache_get = (\<lambda>k. Raises), cache_set = (\<lambda>k v ttl. Returns ()) \<rparr>"

definition cache_set_raises :: "compare_data cacheService" where
  "cache_set_raises =
    \<lparr> generateKey = example_key, cache_get = (\<lambda>k. Returns None), cache_set = (\<lambda>k v ttl. Raises) \<rparr>"

definition cache_empty :: "compare_data cacheService" where
  "cache_empty =
    \<lparr> generateKey = example_key, cache_get = (\<lambda>k. Returns None),
      cache_set = (\<lambda>k v ttl. Returns ()) \<rparr>"

text \<open>Search collaborators over rows that are strings: the cache read raises, or the
  cache write does; every query returns one row.\<close>

definition search_get_raises :: "string search_env" where
  "search_get_raises =
    \<lparr> getSearchCache = (\<lambda>term type. Raises),
      cacheSearch = (\<lambda>term type data ttl. Returns ()),
      getRows = (\<lambda>sql ps. Returns [''row'']) \<rparr>"

definition search_set_raises :: "string search_env" where
  "search_set_raises =
    \<lparr> getSearchCache = (\<lambda>term type. Returns None),
      cacheSearch = (\<lambda>term type data ttl. Raises),
      getRows = (\<lambda>sql ps. Returns [''row'']) \<rparr>"

text \<open>Bodies of \<^verbatim>\<open>POST /advanced\<close>.\<close>

definition body_ab :: advanced_body where
  "body_ab = \<lparr> body_query = Some ''ab'', body_filters = None, body_limit = None, body_offset = None \<rparr>"

definition body_negative :: advanced_body where
  "body_negative =
    \<lparr> body_query = None, body_filters = None, body_limit = Some (- 5), body_offset = Some (- 3) \<rparr>"

definition body_huge :: advanced_body where
  "body_huge =
    \<lparr> body_query = None, body_filters = None, body_limit = Some 1000000, body_offset = None \<rparr>"

definition body_three :: advanced_body where
  "body_three =
    \<lparr> body_query = Some ''x'',
      body_filters = Some (no_filters \<lparr> minPP := Some 100, maxAccuracy := Some (9 / 10),
                                        maxPP := Some 20000 \<rparr>),
      body_limit = Some 10, body_offset = Some 30 \<rparr>"

section \<open>Sorting\<close>

lemma mset_insert_by: "mset (insert_by cmp x ys) = add_mset x (mset ys)"
  by (induction ys) auto

lemma mset_sort_by: "mset (sort_by cmp xs) = mset xs"
  unfolding sort_by_def by (induction xs) (auto simp: mset_insert_by)

lemma length_sort_by: "length (sort_by cmp xs) = length xs"
  using mset_sort_by [of cmp xs] by (metis size_mset)

lemma set_sort_by: "set (sort_by cmp xs) = set xs"
  using mset_sort_by [of cmp xs] by (metis set_mset_mset)

lemma set_insert_by: "set (insert_by cmp x ys) = insert x (set ys)"
  using mset_insert_by [of cmp x ys] by (metis set_mset_mset set_mset_add_mset_insert)

text \<open>
  When the comparator orders by a key, larger keys first, the sorted list has its keys
  in descending order.
\<close>

lemma sorted_insert_by:
  assumes key: "\<And>a b. (cmp a b \<le> 0) = (key b \<le> key a)"
  shows "sorted_wrt (\<lambda>a b. key b \<le> (key a :: rat)) ys \<Longrightarrow>
         sorted_wrt (\<lambda>a b. key b \<le> key a) (insert_by cmp x ys)"
proof (induction ys)
  case Nil
  then show ?case by simp
next
  case (Cons y ys)
  show ?case
  proof (cases "cmp x y \<le> 0")
    case True
    then have "key y \<le> key x" using key by simp
    with Cons.prems True show ?thesis by (auto intro: order_trans)
  next
    case False
    then have "key x \<le> key y" using key by (simp add: not_le less_imp_le)
    with Cons False show ?thesis by (auto simp: set_insert_by)
  qed
qed

lemma sorted_sort_by:
  assumes key: "\<And>a b. (cmp a b \<le> 0) = (key b \<le> key a)"
  shows "sorted_wrt (\<lambda>a b. key b \<le> (key a :: rat)) (sort_by cmp xs)"
  unfolding sort_by_def
  by (induction xs) (auto intro: sorted_insert_by [OF key])

lemma foldl_sum: "foldl (\<lambda>sum p. sum + f p) a ps = a + sum_list (map f ps)"
  by (induction ps arbitrary: a) (auto simp: algebra_simps)

lemma metric_cmp_desc:
  "metric \<noteq> ''avg_rank'' \<Longrightarrow>
   (metric_cmp metric a b \<le> 0) = (js_or (col b metric) 0 \<le> js_or (col a metric) 0)"
  by (simp add: metric_cmp_def Let_def)

lemma sorted_desc_first_Max:
  fixes f :: "'a \<Rightarrow> rat"
  assumes "sorted_wrt (\<lambda>a b. f b \<le> f a) xs" and "xs \<noteq> []"
  shows "f (xs ! 0) = Max (f ` set xs)"
proof -
  obtain y ys where xs: "xs = y # ys" using assms(2) by (cases xs) auto
  have "\<forall>z \<in> set xs. f z \<le> f y" using assms(1) xs by auto
  then have "Max (f ` set xs) = f y"
    using xs by (intro Max_eqI) auto
  then show ?thesis using xs by simp
qed

lemma sorted_desc_last_Min:
  fixes f :: "'a \<Rightarrow> rat"
  assumes "sorted_wrt (\<lambda>a b. f b \<le> f a) xs" and "xs \<noteq> []"
  shows "f (xs ! (length xs - 1)) = Min (f ` set xs)"
proof -
  have l: "xs ! (length xs - 1) = last xs" using assms(2) by (simp add: last_conv_nth)
  have "\<forall>z \<in> set xs. f (last xs) \<le> f z"
  proof
    fix z assume "z \<in> set xs"
    then obtain i where i: "i < length xs" "xs ! i = z" by (auto simp: in_set_conv_nth)
    show "f (last xs) \<le> f z"
    proof (cases "i = length xs - 1")
      case True
      then show ?thesis using i l by simp
    next
      case False
      then have lt: "i < length xs - 1" "length xs - 1 < length xs" using i by simp_all
      have "f (xs ! (length xs - 1)) \<le> f (xs ! i)"
        using assms(1) [unfolded sorted_wrt_iff_nth_less, rule_format, OF lt] .
      then show ?thesis using i l by simp
    qed
  qed
  then have "Min (f ` set xs) = f (last xs)"
    using assms(2) by (intro Min_eqI) auto
  then show ?thesis using l by simp
qed

section \<open>The multi-player comparison\<close>

text \<open>
  The ranking and the summary of one metric, for a metric other than \<^verbatim>\<open>avg_rank\<close>
  and a non-empty list of players.
\<close>

lemma ranking_higher_is_better:
  assumes "metric \<noteq> ''avg_rank''" and "ps \<noteq> []"
  shows "sorted_wrt (\<lambda>a b. b \<le> a) (map rk_value (rankings_of metric ps))
       \<and> map rk_rank (rankings_of metric ps) = [1 ..< Suc (length ps)]
       \<and> mset (map (\<lambda>r. (rk_username r, rk_value r)) (rankings_of metric ps))
           = mset (map (\<lambda>p. (username p, js_or (col p metric) 0)) ps)
       \<and> best (summary_of metric ps) = Max ((\<lambda>p. js_or (col p metric) 0) ` set ps)
       \<and> worst (summary_of metric ps) = Min ((\<lambda>p. js_or (col p metric) 0) ` set ps)
       \<and> average (summary_of metric ps)
           = sum_list (map (\<lambda>p. js_or (col p metric) 0) ps) / of_nat (length ps)"
proof -
  let ?v = "\<lambda>p. js_or (col p metric) 0"
  let ?s = "sortedPlayers metric ps"
  have srt: "sorted_wrt (\<lambda>a b. ?v b \<le> ?v a) ?s"
    unfolding sortedPlayers_def
    by (rule sorted_sort_by) (rule metric_cmp_desc [OF assms(1)])
  have len: "length ?s = length ps" by (simp add: sortedPlayers_def length_sort_by)
  have st: "set ?s = set ps" by (simp add: sortedPlayers_def set_sort_by)
  have ms: "mset ?s = mset ps" by (simp add: sortedPlayers_def mset_sort_by)
  have ne: "?s \<noteq> []" using len assms(2) by auto
  have vals: "map rk_value (rankings_of metric ps) = map ?v ?s"
    unfolding rankings_of_def by (rule nth_equalityI) (simp_all add: case_prod_beta)
  have names: "map (\<lambda>r. (rk_username r, rk_value r)) (rankings_of metric ps)
      = map (\<lambda>p. (username p, ?v p)) ?s"
    unfolding rankings_of_def by (rule nth_equalityI) (simp_all add: case_prod_beta)
  have ranks: "map rk_rank (rankings_of metric ps) = map Suc [0 ..< length ?s]"
    unfolding rankings_of_def by (rule nth_equalityI) (simp_all add: case_prod_beta)
  have c1: "sorted_wrt (\<lambda>a b. b \<le> a) (map rk_value (rankings_of metric ps))"
    using srt by (simp add: vals sorted_wrt_map)
  have c2: "map rk_rank (rankings_of metric ps) = [1 ..< Suc (length ps)]"
    using ranks len by (simp add: map_Suc_upt)
  have c3: "mset (map (\<lambda>r. (rk_username r, rk_value r)) (rankings_of metric ps))
           = mset (map (\<lambda>p. (username p, ?v p)) ps)"
    using ms by (simp add: names)
  have c4: "best (summary_of metric ps) = Max (?v ` set ps)"
    using sorted_desc_first_Max [OF srt ne] st by (simp add: summary_of_def)
  have c5: "worst (summary_of metric ps) = Min (?v ` set ps)"
    using sorted_desc_last_Min [OF srt ne] st by (simp add: summary_of_def)
  have c6: "average (summary_of metric ps) = sum_list (map ?v ps) / of_nat (length ps)"
    by (simp add: summary_of_def foldl_sum)
  show ?thesis using c1 c2 c3 c4 c5 c6 by blast
qed

text \<open>
  What \<^verbatim>\<open>metrics.forEach\<close> leaves in the comparison: for every metric requested, its
  ranking and its summary, computed from the players of the comparison.
\<close>

lemma players_add_metrics: "players (foldl add_metric c ms) = players c"
  by (induction ms arbitrary: c) (simp_all add: add_metric_def)

lemma rankings_add_metrics:
  "map_of (rankings (foldl add_metric c ms)) metric =
     (if metric \<in> set ms then Some (rankings_of metric (players c)) else map_of (rankings c) metric)"
proof (induction ms arbitrary: c)
  case Nil
  then show ?case by simp
next
  case (Cons m ms)
  have p: "players (add_metric c m) = players c" by (simp add: add_metric_def)
  have r: "map_of (rankings (add_metric c m)) metric =
      (if metric = m then Some (rankings_of m (players c)) else map_of (rankings c) metric)"
    by (simp add: add_metric_def update_conv')
  have "map_of (rankings (foldl add_metric c (m # ms))) metric =
      (if metric \<in> set ms then Some (rankings_of metric (players (add_metric c m)))
       else map_of (rankings (add_metric c m)) metric)"
    using Cons.IH [of "add_metric c m"] by simp
  then show ?case unfolding p r by auto
qed

lemma metrics_add_metrics:
  "map_of (metrics (foldl add_metric c ms)) metric =
     (if metric \<in> set ms then Some (summary_of metric (players c)) else map_of (metrics c) metric)"
proof (induction ms arbitrary: c)
  case Nil
  then show ?case by simp
next
  case (Cons m ms)
  have p: "players (add_metric c m) = players c" by (simp add: add_metric_def)
  have r: "map_of (metrics (add_metric c m)) metric =
      (if metric = m then Some (summary_of m (players c)) else map_of (metrics c) metric)"
    by (simp add: add_metric_def update_conv')
  have "map_of (metrics (foldl add_metric c (m # ms))) metric =
      (if metric \<in> set ms then Some (summary_of metric (players (add_metric c m)))
       else map_of (metrics (add_metric c m)) metric)"
    using Cons.IH [of "add_metric c m"] by simp
  then show ?case unfolding p r by auto
qed

lemma build_comparison_entries:
  assumes "metric \<in> set ms"
  shows "players (build_comparison ps ms) = ps"
    and "map_of (rankings (build_comparison ps ms)) metric = Some (rankings_of metric ps)"
    and "map_of (metrics (build_comparison ps ms)) metric = Some (summary_of metric ps)"
  using assms
  by (simp_all add: build_comparison_def players_add_metrics rankings_add_metrics metrics_add_metrics)


lemma fetch_players_returns:
  assumes "\<forall>u \<in> set us. getRow_player d multiple_sql [PStr (wrap u)] = Returns (lookup u)"
  shows "fetch_players d us ps evs =
          (Returns (ps @ List.map_filter lookup us),
           evs @ map (\<lambda>u. Query multiple_sql [PStr (wrap u)]) us)"
  using assms
proof (induction us arbitrary: ps evs)
  case Nil
  then show ?case by (simp add: List.map_filter_simps)
next
  case (Cons u us)
  then show ?case
    by (cases "lookup u") (simp_all add: List.map_filter_simps)
qed

lemma table_db_lookup:
  "getRow_player (table_db table) sql [PStr pattern] = Returns (table_lookup table pattern)"
  by (simp add: table_db_def)

text \<open>
  Claim C7. When a request with 2 to 5 usernames resolves to the rows \<open>ps\<close> (at least
  two), the answer is 200, and for every requested metric other than \<^verbatim>\<open>avg_rank\<close>
  (higher is better) that names a numeric column, the comparison of the answer holds
  under the metric a ranking and a summary such that: the ranking lists the values
  (\<^verbatim>\<open>null\<close> counted as 0) in descending order, its ranks are 1, 2, ... in that order,
  it holds every row found with its value exactly once, and \<open>best\<close>, \<open>worst\<close> and
  \<open>average\<close> are the maximum, the minimum and the arithmetic mean of the values, not
  of the ranks. Arithmetic is exact here; the IEEE sum of the code can differ from
  the exact mean in the last bits when the values are fractions. The example after
  the theorem is the scenario A 500, B 800, C 650, whose values and mean are exact
  in IEEE arithmetic too: the whole answer is evaluated.
\<close>

theorem multiple_ranking_higher_is_better:
  assumes "2 \<le> length us" and "length us \<le> 5"
    and "\<forall>u \<in> set us. getRow_player d multiple_sql [PStr (wrap u)] = Returns (lookup u)"
    and "ps = List.map_filter lookup us" and "2 \<le> length ps"
    and "metric \<in> set ms" and "metric \<noteq> ''avg_rank''" and "numeric_column metric"
  shows "\<exists>c r s.
      fst (multiple_handler d \<lparr> body_usernames = Some us, body_metrics = Some ms \<rparr>)
        = (200, Success c)
      \<and> players c = ps
      \<and> map_of (rankings c) metric = Some r
      \<and> map_of (metrics c) metric = Some s
      \<and> sorted_wrt (\<lambda>a b. b \<le> a) (map rk_value r)
      \<and> map rk_rank r = [1 ..< Suc (length ps)]
      \<and> mset (map (\<lambda>x. (rk_username x, rk_value x)) r)
          = mset (map (\<lambda>p. (username p, js_or (col p metric) 0)) ps)
      \<and> best s = Max ((\<lambda>p. js_or (col p metric) 0) ` set ps)
      \<and> worst s = Min ((\<lambda>p. js_or (col p metric) 0) ` set ps)
      \<and> average s = sum_list (map (\<lambda>p. js_or (col p metric) 0) ps) / of_nat (length ps)"
proof -
  have ne: "ps \<noteq> []" using assms(5) by auto
  have resp: "fst (multiple_handler d \<lparr> body_usernames = Some us, body_metrics = Some ms \<rparr>)
        = (200, Success (build_comparison ps ms))"
    using assms(1,2,5) unfolding assms(4)
    by (simp add: multiple_handler_def fetch_players_returns [OF assms(3)])
  note e = build_comparison_entries [OF assms(6), of ps]
  note k = ranking_higher_is_better [OF assms(7) ne]
  show ?thesis
    using resp e k by blast
qed


theorem multiple_ranking_example:
  "numeric_column ''pp'' \<and> ''pp'' \<noteq> ''avg_rank''
   \<and> fst (multiple_handler (table_db [player_A, player_B, player_C])
        \<lparr> body_usernames = Some [''A'', ''B'', ''C''], body_metrics = Some [''pp''] \<rparr>)
      = (200, Success
          \<lparr> players = [player_A, player_B, player_C],
            metrics = [(''pp'', \<lparr>best = 800, worst = 500, average = 650\<rparr>)],
            rankings = [(''pp'',
              [\<lparr>rk_username = ''B'', rk_value = 800, rk_rank = 1\<rparr>,
               \<lparr>rk_username = ''C'', rk_value = 650, rk_rank = 2\<rparr>,
               \<lparr>rk_username = ''A'', rk_value = 500, rk_rank = 3\<rparr>])] \<rparr>)
   \<and> (\<exists>r s. map_of [(''pp'',
              [\<lparr>rk_username = ''B'', rk_value = 800, rk_rank = 1\<rparr>,
               \<lparr>rk_username = ''C'', rk_value = 650, rk_rank = 2\<rparr>,
               \<lparr>rk_username = ''A'', rk_value = 500, rk_rank = 3\<rparr>])] ''pp'' = Some r
        \<and> map_of [(''pp'', \<lparr>best = 800, worst = 500, average = 650\<rparr>)] ''pp'' = Some s
        \<and> sorted_wrt (\<lambda>a b. b \<le> a) (map rk_value r)
        \<and> map rk_rank r = [1 ..< Suc (length [player_A, player_B, player_C])]
        \<and> best s = Max ((\<lambda>p. js_or (col p ''pp'') 0) ` set [player_A, player_B, player_C])
        \<and> worst s = Min ((\<lambda>p. js_or (col p ''pp'') 0) ` set [player_A, player_B, player_C]))"
proof -
  let ?T = "[player_A, player_B, player_C]"
  let ?lookup = "\<lambda>u. table_lookup ?T (wrap u)"
  let ?C = "\<lparr> players = ?T,
            metrics = [(''pp'', \<lparr>best = 800, worst = 500, average = 650\<rparr>)],
            rankings = [(''pp'',
              [\<lparr>rk_username = ''B'', rk_value = 800, rk_rank = 1\<rparr>,
               \<lparr>rk_username = ''C'', rk_value = 650, rk_rank = 2\<rparr>,
               \<lparr>rk_username = ''A'', rk_value = 500, rk_rank = 3\<rparr>])] \<rparr>"
  have h: "\<forall>u \<in> set [''A'', ''B'', ''C'']. getRow_player (table_db ?T) multiple_sql [PStr (wrap u)]
             = Returns (?lookup u)"
    by (simp add: table_db_lookup)
  have e: "?T = List.map_filter ?lookup [''A'', ''B'', ''C'']"
    by (simp add: List.map_filter_simps table_lookup_def wrap_def ilike_def to_lower_def
        player_A_def player_B_def player_C_def)
  have n: "numeric_column ''pp''" by (simp add: numeric_column_def Object_prototype_def)
  have b: "build_comparison ?T [''pp''] = ?C"
    by (simp add: build_comparison_def add_metric_def rankings_of_def summary_of_def
        sortedPlayers_def sort_by_def metric_cmp_def js_or_def col_def
        player_A_def player_B_def player_C_def upt_rec)
  from multiple_ranking_higher_is_better [OF _ _ h e _ _ _ n, of "[''pp'']"]
  obtain c r s where c:
    "fst (multiple_handler (table_db ?T)
        \<lparr> body_usernames = Some [''A'', ''B'', ''C''], body_metrics = Some [''pp''] \<rparr>)
      = (200, Success c)"
    "players c = ?T" "map_of (rankings c) ''pp'' = Some r" "map_of (metrics c) ''pp'' = Some s"
    "sorted_wrt (\<lambda>a b. b \<le> a) (map rk_value r)"
    "map rk_rank r = [1 ..< Suc (length ?T)]"
    "best s = Max ((\<lambda>p. js_or (col p ''pp'') 0) ` set ?T)"
    "worst s = Min ((\<lambda>p. js_or (col p ''pp'') 0) ` set ?T)"
    by auto
  have f: "fetch_players (table_db ?T) [''A'', ''B'', ''C''] [] []
      = (Returns ?T, map (\<lambda>u. Query multiple_sql [PStr (wrap u)]) [''A'', ''B'', ''C''])"
    unfolding fetch_players_returns [OF h] e [symmetric] by simp
  have resp: "fst (multiple_handler (table_db ?T)
        \<lparr> body_usernames = Some [''A'', ''B'', ''C''], body_metrics = Some [''pp''] \<rparr>)
      = (200, Success (build_comparison ?T [''pp'']))"
    by (simp add: multiple_handler_def f del: fetch_players.simps)
  have "c = ?C" using c(1) resp b by simp
  then show ?thesis using c n resp b by auto
qed

text \<open>
  Claim C6. A request with fewer than 2 or more than 5 usernames (or with none at all)
  is answered 400 before any call of a collaborator: the list of calls is empty, and
  the route has no cache lookup at all. A request with 2 to 5 usernames is not
  answered 400. In the example after the theorem, requests with 1 and with 6 usernames
  are rejected, and requests with 2 and with 5 usernames that all resolve get 200.
\<close>

theorem multiple_bounds:
  "(length us < 2 \<or> 5 < length us \<longrightarrow>
      multiple_handler d \<lparr> body_usernames = Some us, body_metrics = ms \<rparr> =
        ((400, Failure ''Please provide between 2 and 5 usernames''), []))
   \<and> multiple_handler d \<lparr> body_usernames = None, body_metrics = ms \<rparr> =
        ((400, Failure ''Please provide between 2 and 5 usernames''), [])
   \<and> (2 \<le> length us \<and> length us \<le> 5 \<longrightarrow>
        fst (fst (multiple_handler d \<lparr> body_usernames = Some us, body_metrics = ms \<rparr>)) \<noteq> 400)"
  by (auto simp: multiple_handler_def internal_error_def Let_def split: prod.splits outcome.splits)

theorem multiple_bounds_example:
  "multiple_handler (table_db [player_A, player_B, player_C])
      \<lparr> body_usernames = Some [''A''], body_metrics = None \<rparr>
     = ((400, Failure ''Please provide between 2 and 5 usernames''), [])
   \<and> multiple_handler (table_db [player_A, player_B, player_C])
      \<lparr> body_usernames = Some [''A'', ''B'', ''C'', ''a'', ''b'', ''c''], body_metrics = None \<rparr>
     = ((400, Failure ''Please provide between 2 and 5 usernames''), [])
   \<and> fst (fst (multiple_handler (table_db [player_A, player_B, player_C])
      \<lparr> body_usernames = Some [''A'', ''B''], body_metrics = None \<rparr>)) \<noteq> 400
   \<and> fst (fst (multiple_handler (table_db [player_A, player_B, player_C])
      \<lparr> body_usernames = Some [''A'', ''B'', ''C'', ''a'', ''b''], body_metrics = None \<rparr>)) \<noteq> 400
   \<and> fst (fst (multiple_handler (table_db [player_A, player_B, player_C])
      \<lparr> body_usernames = Some [''A'', ''B''], body_metrics = None \<rparr>)) = 200
   \<and> fst (fst (multiple_handler (table_db [player_A, player_B, player_C])
      \<lparr> body_usernames = Some [''A'', ''B'', ''C'', ''a'', ''b''], body_metrics = None \<rparr>)) = 200"
proof -
  let ?T = "[player_A, player_B, player_C]"
  let ?lookup = "\<lambda>u. table_lookup ?T (wrap u)"
  have h: "\<forall>u \<in> set us. getRow_player (table_db ?T) multiple_sql [PStr (wrap u)]
             = Returns (?lookup u)" for us
    by (simp add: table_db_lookup)
  have e2: "List.map_filter ?lookup [''A'', ''B''] = [player_A, player_B]"
    by (simp add: List.map_filter_simps table_lookup_def wrap_def ilike_def to_lower_def
        player_A_def player_B_def player_C_def)
  have e5: "List.map_filter ?lookup [''A'', ''B'', ''C'', ''a'', ''b'']
             = [player_A, player_B, player_C, player_A, player_B]"
    by (simp add: List.map_filter_simps table_lookup_def wrap_def ilike_def to_lower_def
        player_A_def player_B_def player_C_def)
  have f2: "fetch_players (table_db ?T) [''A'', ''B''] [] []
             = (Returns [player_A, player_B],
                map (\<lambda>u. Query multiple_sql [PStr (wrap u)]) [''A'', ''B''])"
    unfolding fetch_players_returns [OF h] e2 by simp
  have f5: "fetch_players (table_db ?T) [''A'', ''B'', ''C'', ''a'', ''b''] [] []
             = (Returns [player_A, player_B, player_C, player_A, player_B],
                map (\<lambda>u. Query multiple_sql [PStr (wrap u)]) [''A'', ''B'', ''C'', ''a'', ''b''])"
    unfolding fetch_players_returns [OF h] e5 by simp
  have ok2: "fst (fst (multiple_handler (table_db ?T)
      \<lparr> body_usernames = Some [''A'', ''B''], body_metrics = None \<rparr>)) = 200"
    by (simp add: multiple_handler_def f2 del: fetch_players.simps)
  have ok5: "fst (fst (multiple_handler (table_db ?T)
      \<lparr> body_usernames = Some [''A'', ''B'', ''C'', ''a'', ''b''], body_metrics = None \<rparr>)) = 200"
    by (simp add: multiple_handler_def f5 del: fetch_players.simps)
  show ?thesis
    using multiple_bounds [of "[''A'']" "table_db ?T" None]
      multiple_bounds [of "[''A'', ''B'', ''C'', ''a'', ''b'', ''c'']" "table_db ?T" None]
      multiple_bounds [of "[''A'', ''B'']" "table_db ?T" None]
      multiple_bounds [of "[''A'', ''B'', ''C'', ''a'', ''b'']" "table_db ?T" None]
      ok2 ok5
    by simp
qed

text \<open>
  Claim C9. When every lookup of a request with 2 to 5 usernames returns (a row or
  nothing), the usernames with no row are dropped: with at least two rows found the
  answer is 200 and the comparison built from the rows found alone, in the order of
  the request, and it names no omitted username; with fewer than two rows found the
  answer is 404.
\<close>

theorem multiple_drops_unresolved:
  assumes "2 \<le> length us" and "length us \<le> 5"
    and "\<forall>u \<in> set us. getRow_player d multiple_sql [PStr (wrap u)] = Returns (lookup u)"
  shows "fst (multiple_handler d \<lparr> body_usernames = Some us, body_metrics = Some ms \<rparr>) =
          (if length (List.map_filter lookup us) < 2
           then (404, Failure ''At least 2 valid players required'')
           else (200, Success (build_comparison (List.map_filter lookup us) ms)))"
  using assms(1,2)
  by (simp add: multiple_handler_def fetch_players_returns [OF assms(3)])

theorem multiple_drops_unresolved_example:
  "fst (multiple_handler (table_db [player_A, player_B, player_C])
          \<lparr> body_usernames = Some [''A'', ''zz'', ''B'', ''C''], body_metrics = Some [''pp''] \<rparr>)
     = (200, Success (build_comparison [player_A, player_B, player_C] [''pp'']))
   \<and> fst (multiple_handler (table_db [player_A, player_B, player_C])
          \<lparr> body_usernames = Some [''A'', ''zz'', ''yy''], body_metrics = Some [''pp''] \<rparr>)
     = (404, Failure ''At least 2 valid players required'')"
proof -
  let ?T = "[player_A, player_B, player_C]"
  let ?lookup = "\<lambda>u. table_lookup ?T (wrap u)"
  have h: "\<forall>u \<in> set us. getRow_player (table_db ?T) multiple_sql [PStr (wrap u)]
             = Returns (?lookup u)" for us
    by (simp add: table_db_lookup)
  have e1: "List.map_filter ?lookup [''A'', ''zz'', ''B'', ''C''] = ?T"
    by (simp add: List.map_filter_simps table_lookup_def wrap_def ilike_def to_lower_def
        player_A_def player_B_def player_C_def)
  have e2: "List.map_filter ?lookup [''A'', ''zz'', ''yy''] = [player_A]"
    by (simp add: List.map_filter_simps table_lookup_def wrap_def ilike_def to_lower_def
        player_A_def player_B_def player_C_def)
  have r1: "fst (multiple_handler (table_db ?T)
          \<lparr> body_usernames = Some [''A'', ''zz'', ''B'', ''C''], body_metrics = Some [''pp''] \<rparr>)
     = (200, Success (build_comparison ?T [''pp'']))"
    using multiple_drops_unresolved [OF _ _ h, of "[''A'', ''zz'', ''B'', ''C'']" "[''pp'']"]
    unfolding e1 by simp
  have r2: "fst (multiple_handler (table_db ?T)
          \<lparr> body_usernames = Some [''A'', ''zz'', ''yy''], body_metrics = Some [''pp''] \<rparr>)
     = (404, Failure ''At least 2 valid players required'')"
    using multiple_drops_unresolved [OF _ _ h, of "[''A'', ''zz'', ''yy'']" "[''pp'']"]
    unfolding e2 by simp
  show ?thesis using r1 r2 by simp
qed

section \<open>The player lookups\<close>

text \<open>
  For a plain string \<open>u\<close>, the pattern \<^verbatim>\<open>%u%\<close> matches exactly the strings that
  contain \<open>u\<close>, letters compared without regard to case.
\<close>

lemma like_percent_all: "like ''%'' s"
  by (induction s) simp_all

lemma like_plain_prefix:
  assumes "CHR ''%'' \<notin> set u" "CHR ''_'' \<notin> set u" "CHR 0x5C \<notin> set u"
  shows "like (u @ ''%'') s = prefix u s"
  using assms
proof (induction u arbitrary: s)
  case Nil
  then show ?case by (simp add: like_percent_all)
next
  case (Cons a u)
  then show ?case by (cases s) auto
qed

lemma like_percent_suffix: "like (CHR ''%'' # p) s = (\<exists>t. suffix t s \<and> like p t)"
proof (induction s)
  case Nil
  then show ?case by simp
next
  case (Cons c cs)
  have "like (CHR ''%'' # p) (c # cs) = (like p (c # cs) \<or> like (CHR ''%'' # p) cs)" by simp
  also have "\<dots> = (like p (c # cs) \<or> (\<exists>t. suffix t cs \<and> like p t))" using Cons.IH by simp
  also have "\<dots> = (\<exists>t. suffix t (c # cs) \<and> like p t)" by (auto simp: suffix_Cons)
  finally show ?case .
qed

lemma like_wrapped_plain:
  assumes "CHR ''%'' \<notin> set u" "CHR ''_'' \<notin> set u" "CHR 0x5C \<notin> set u"
  shows "like (''%'' @ u @ ''%'') s = sublist u s"
  using like_percent_suffix [of "u @ ''%''" s] like_plain_prefix [OF assms]
  by (auto simp: sublist_altdef')

lemma to_lower_special:
  "(to_lower c = CHR ''%'') = (c = CHR ''%'')"
  "(to_lower c = CHR ''_'') = (c = CHR ''_'')"
  "(to_lower c = CHR 0x5C) = (c = CHR 0x5C)"
  by (auto simp: to_lower_def split: option.splits if_splits)

lemma ilike_wrapped_plain:
  assumes "plain u"
  shows "ilike (''%'' @ u @ ''%'') s = contains u s"
proof -
  have "CHR ''%'' \<notin> set (map to_lower u)" "CHR ''_'' \<notin> set (map to_lower u)"
    "CHR 0x5C \<notin> set (map to_lower u)"
    using assms unfolding plain_def by (auto, (metis to_lower_special)+)
  from like_wrapped_plain [OF this, of "map to_lower s"]
  have "like (''%'' @ map to_lower u @ ''%'') (map to_lower s) = contains u s"
    by (simp add: contains_def)
  moreover have "map to_lower (''%'' @ u @ ''%'') = ''%'' @ map to_lower u @ ''%''"
    by (simp add: to_lower_def)
  ultimately show ?thesis by (simp only: ilike_def)
qed

lemma table_lookup_plain:
  assumes "plain u"
  shows "table_lookup table (wrap u) = find (\<lambda>p. contains u (username p)) table"
  unfolding table_lookup_def wrap_def ilike_wrapped_plain [OF assms] ..

text \<open>
  Claim C10, as amended. Every player lookup of the two-player and of the
  multi-player comparison is a query \<^verbatim>\<open>username ILIKE $1\<close> whose bound parameter is
  the supplied string between two \<^verbatim>\<open>%\<close>. Over the storage modelled, for supplied
  strings that are plain (no \<^verbatim>\<open>%\<close>, no \<^verbatim>\<open>_\<close>, no backslash), each lookup resolves to
  the first row whose username contains the supplied string without regard to case,
  and to nothing when there is none: the two-player comparison answers 404 when one
  of the two strings resolves to nothing, and otherwise 200 with the two rows found,
  which it never compares with each other, so both may be the same row; the
  multi-player comparison is built from the rows so found. The example after the
  theorem has two distinct strings that resolve to the same row.
\<close>

theorem player_lookup_matches_pattern:
  assumes storage: "\<And>sql pattern. getRow_player d sql [PStr pattern] = Returns (table_lookup table pattern)"
    and plain: "plain u1" "plain u2" "\<forall>u \<in> set us. plain u"
    and miss: "cache_get cache (generateKey cache ''compare'' [u1, u2]) = Returns None"
    and rows: "getRows_skill d skills_sql [PStr (''%'' @ u1 @ ''%'')] = Returns skills1"
      "getRows_skill d skills_sql [PStr (''%'' @ u2 @ ''%'')] = Returns skills2"
      "getRows_score d top_scores_sql [PStr (''%'' @ u1 @ ''%'')] = Returns scores1"
      "getRows_score d top_scores_sql [PStr (''%'' @ u2 @ ''%'')] = Returns scores2"
    and store: "\<And>data. cache_set cache (generateKey cache ''compare'' [u1, u2]) data 600 = Returns ()"
    and bounds: "2 \<le> length us" "length us \<le> 5"
  shows "compare_handler cache d u1 u2 =
      (case (find (\<lambda>p. contains u1 (username p)) table,
             find (\<lambda>p. contains u2 (username p)) table) of
         (Some p1, Some p2) \<Rightarrow>
           ((200, Success (assemble p1 p2 skills1 skills2 scores1 scores2)),
            [CacheGet (generateKey cache ''compare'' [u1, u2]),
             Query ''SELECT * FROM player_stats WHERE username ILIKE $1'' [PStr (''%'' @ u1 @ ''%'')],
             Query ''SELECT * FROM player_stats WHERE username ILIKE $1'' [PStr (''%'' @ u2 @ ''%'')],
             Query skills_sql [PStr (''%'' @ u1 @ ''%'')],
             Query skills_sql [PStr (''%'' @ u2 @ ''%'')],
             Query top_scores_sql [PStr (''%'' @ u1 @ ''%'')],
             Query top_scores_sql [PStr (''%'' @ u2 @ ''%'')],
             CacheSet (generateKey cache ''compare'' [u1, u2]) 600])
       | _ \<Rightarrow>
           ((404, Failure ''One or both players not found''),
            [CacheGet (generateKey cache ''compare'' [u1, u2]),
             Query ''SELECT * FROM player_stats WHERE username ILIKE $1'' [PStr (''%'' @ u1 @ ''%'')],
             Query ''SELECT * FROM player_stats WHERE username ILIKE $1'' [PStr (''%'' @ u2 @ ''%'')]]))
    \<and> multiple_handler d \<lparr> body_usernames = Some us, body_metrics = Some ms \<rparr> =
        ((if length (List.map_filter (\<lambda>u. find (\<lambda>p. contains u (username p)) table) us) < 2
          then (404, Failure ''At least 2 valid players required'')
          else (200, Success (build_comparison
                  (List.map_filter (\<lambda>u. find (\<lambda>p. contains u (username p)) table) us) ms))),
         map (\<lambda>u. Query multiple_sql [PStr (''%'' @ u @ ''%'')]) us)"
proof -
  let ?f = "\<lambda>u. find (\<lambda>p. contains u (username p)) table"
  have l1: "getRow_player d player_sql [PStr (wrap u1)] = Returns (?f u1)"
    by (simp add: storage table_lookup_plain [OF plain(1)])
  have l2: "getRow_player d player_sql [PStr (wrap u2)] = Returns (?f u2)"
    by (simp add: storage table_lookup_plain [OF plain(2)])
  have c: "compare_handler cache d u1 u2 =
      (case (?f u1, ?f u2) of
         (Some p1, Some p2) \<Rightarrow>
           ((200, Success (assemble p1 p2 skills1 skills2 scores1 scores2)),
            [CacheGet (generateKey cache ''compare'' [u1, u2]),
             Query ''SELECT * FROM player_stats WHERE username ILIKE $1'' [PStr (''%'' @ u1 @ ''%'')],
             Query ''SELECT * FROM player_stats WHERE username ILIKE $1'' [PStr (''%'' @ u2 @ ''%'')],
             Query skills_sql [PStr (''%'' @ u1 @ ''%'')],
             Query skills_sql [PStr (''%'' @ u2 @ ''%'')],
             Query top_scores_sql [PStr (''%'' @ u1 @ ''%'')],
             Query top_scores_sql [PStr (''%'' @ u2 @ ''%'')],
             CacheSet (generateKey cache ''compare'' [u1, u2]) 600])
       | _ \<Rightarrow>
           ((404, Failure ''One or both players not found''),
            [CacheGet (generateKey cache ''compare'' [u1, u2]),
             Query ''SELECT * FROM player_stats WHERE username ILIKE $1'' [PStr (''%'' @ u1 @ ''%'')],
             Query ''SELECT * FROM player_stats WHERE username ILIKE $1'' [PStr (''%'' @ u2 @ ''%'')]]))"
  proof (cases "?f u1")
    case None
    then show ?thesis
      using l1 l2 miss
      by (cases "?f u2") (simp_all add: compare_handler_def Let_def wrap_def player_sql_def)
  next
    case (Some p1)
    show ?thesis
    proof (cases "?f u2")
      case None
      then show ?thesis
        using Some l1 l2 miss
        by (simp add: compare_handler_def Let_def wrap_def player_sql_def)
    next
      case (Some p2)
      then show ?thesis
        using \<open>?f u1 = Some p1\<close> l1 l2 miss rows store
        by (simp add: compare_handler_def Let_def wrap_def player_sql_def)
    qed
  qed
  have h: "\<forall>u \<in> set us. getRow_player d multiple_sql [PStr (wrap u)] = Returns (?f u)"
    using plain(3) by (simp add: storage table_lookup_plain)
  have m: "multiple_handler d \<lparr> body_usernames = Some us, body_metrics = Some ms \<rparr> =
        ((if length (List.map_filter ?f us) < 2
          then (404, Failure ''At least 2 valid players required'')
          else (200, Success (build_comparison (List.map_filter ?f us) ms))),
         map (\<lambda>u. Query multiple_sql [PStr (''%'' @ u @ ''%'')]) us)"
    using bounds
    by (simp add: multiple_handler_def fetch_players_returns [OF h] Let_def wrap_def)
  show ?thesis using c m by simp
qed


theorem player_lookup_matches_pattern_example:
  "plain ''ali'' \<and> plain ''LIC'' \<and> ''ali'' \<noteq> ''LIC''
   \<and> find (\<lambda>p. contains ''ali'' (username p)) [bob, alice] = Some alice
   \<and> find (\<lambda>p. contains ''LIC'' (username p)) [bob, alice] = Some alice
   \<and> fst (compare_handler cache_empty (table_db [bob, alice]) ''ali'' ''LIC'')
       = (200, Success (assemble alice alice [] [] [] []))
   \<and> multiple_handler (table_db [bob, alice])
        \<lparr> body_usernames = Some [''ali'', ''LIC''], body_metrics = Some [''weighted_pp''] \<rparr>
       = ((200, Success (build_comparison [alice, alice] [''weighted_pp''])),
          [Query multiple_sql [PStr ''%ali%''], Query multiple_sql [PStr ''%LIC%'']])"
proof -
  let ?d = "table_db [bob, alice]"
  have st: "getRow_player ?d sql [PStr pattern] = Returns (table_lookup [bob, alice] pattern)"
    for sql pattern by (simp add: table_db_def)
  have pl: "plain ''ali''" "plain ''LIC''" "\<forall>u \<in> set [''ali'', ''LIC'']. plain u"
    by (simp_all add: plain_def)
  have f1: "find (\<lambda>p. contains ''ali'' (username p)) [bob, alice] = Some alice"
    by (simp add: contains_def to_lower_def alice_def bob_def sublist_Cons_right prefix_Cons)
  have f2: "find (\<lambda>p. contains ''LIC'' (username p)) [bob, alice] = Some alice"
    by (simp add: contains_def to_lower_def alice_def bob_def sublist_Cons_right prefix_Cons)
  have g: "cache_get cache_empty (generateKey cache_empty ''compare'' [''ali'', ''LIC'']) = Returns None"
    by (simp add: cache_empty_def)
  have s: "cache_set cache_empty (generateKey cache_empty ''compare'' [''ali'', ''LIC'']) data 600
      = Returns ()" for data
    by (simp add: cache_empty_def)
  have sk: "getRows_skill ?d sql ps = Returns []" for sql ps by (simp add: table_db_def)
  have sc: "getRows_score ?d sql ps = Returns []" for sql ps by (simp add: table_db_def)
  have e: "List.map_filter (\<lambda>u. find (\<lambda>p. contains u (username p)) [bob, alice]) [''ali'', ''LIC'']
      = [alice, alice]"
    by (simp add: List.map_filter_simps contains_def to_lower_def alice_def bob_def
        sublist_Cons_right prefix_Cons)
  show ?thesis
    using player_lookup_matches_pattern [OF st pl g sk sk sc sc s, of "[''weighted_pp'']"]
    unfolding e f1 f2
    by (simp add: pl)
qed

text \<open>
  The claim as stated (the lookup resolves by containment, for any supplied string)
  fails for a supplied string with a character that \<^verbatim>\<open>ILIKE\<close> reads as more than
  itself: \<^verbatim>\<open>a_i\<close> and \<^verbatim>\<open>al\ice\<close> both resolve to the row of Alice, whose username
  contains neither.
\<close>

theorem player_lookup_counterexample:
  "fst (compare_handler cache_empty (table_db [alice]) ''a_i'' ''alice'')
     = (200, Success (assemble alice alice [] [] [] []))
   \<and> \<not> contains ''a_i'' (username alice)
   \<and> fst (compare_handler cache_empty (table_db [alice]) [CHR ''a'', CHR ''l'', CHR 0x5C, CHR ''i'', CHR ''c'', CHR ''e''] ''alice'')
     = (200, Success (assemble alice alice [] [] [] []))
   \<and> \<not> contains [CHR ''a'', CHR ''l'', CHR 0x5C, CHR ''i'', CHR ''c'', CHR ''e''] (username alice)"
  by (simp add: compare_handler_def cache_empty_def table_db_def table_lookup_def ilike_def
      to_lower_def wrap_def alice_def contains_def sublist_Cons_right prefix_Cons Let_def)


section \<open>The two-player and the per-beatmap comparison\<close>

text \<open>
  Claim C2. The country-rank differential is flipped (rank 5 against rank 20 gives
  +15), but the rank differential of the per-beatmap comparison is not: for a score of
  rank 1 against a score of rank 5 the handler names the first player the winner and
  reports the rank difference \<open>-4\<close>.
\<close>

theorem beatmap_rank_difference_not_flipped:
  "difference (countryRank (stat_comparison alice bob)) = 15
   \<and> beatmap_handler ''alice'' ''bob'' (Some score_first) (Some score_fifth) (None :: unit option) =
    (200, Success
      \<lparr> beatmap = None,
        side1 = \<lparr> side_username = ''alice'', side_score = Some score_first, hasScore = True \<rparr>,
        side2 = \<lparr> side_username = ''bob'', side_score = Some score_fifth, hasScore = True \<rparr>,
        winner = ''alice'',
        differences = Some \<lparr> diff_rank = - 4, diff_score = 40000, diff_accuracy = 2 / 100,
                              diff_pp = 50, diff_maxCombo = 100 \<rparr> \<rparr>)"
  by (simp add: beatmap_handler_def score_first_def score_fifth_def js_or_def
      stat_comparison_def col_def alice_def bob_def)

text \<open>
  Claim C3. A missing \<^verbatim>\<open>country_rank\<close> becomes the sentinel 999999 in the two-player
  comparison, but a missing \<^verbatim>\<open>avg_rank\<close> becomes 0 in the multi-player comparison,
  where lower is better: the player without a value is ranked first, ahead of the
  player whose \<^verbatim>\<open>avg_rank\<close> is 3, and \<open>best\<close> is 0.
\<close>

theorem avg_rank_missing_ranks_first:
  "player1 (countryRank (stat_comparison player_unranked player_ranked)) = 999999
   \<and> rankings_of ''avg_rank'' [player_ranked, player_unranked] =
     [\<lparr> rk_username = ''newcomer'', rk_value = 0, rk_rank = 1 \<rparr>,
      \<lparr> rk_username = ''veteran'', rk_value = 3, rk_rank = 2 \<rparr>]
   \<and> best (summary_of ''avg_rank'' [player_ranked, player_unranked]) = 0"
  by (simp add: rankings_of_def summary_of_def sortedPlayers_def sort_by_def metric_cmp_def
      js_or_def col_def player_ranked_def player_unranked_def stat_comparison_def upt_rec)

section \<open>The cache\<close>

text \<open>
  Claim C1, as amended. A fault of the cache is not absorbed. When the storage
  answers every query, the two-player comparison and the search answer 500
  \<^verbatim>\<open>Internal server error\<close> if the cache read raises, and also if the read misses and
  the cache write raises after the data has been computed; they answer 200 with the
  cached data on a hit, and 200 with the freshly computed data only when the read
  misses and the write returns.
\<close>

theorem cache_fault_is_request_failure:
  assumes "getRow_player d player_sql [PStr (wrap u1)] = Returns (Some p1)"
    and "getRow_player d player_sql [PStr (wrap u2)] = Returns (Some p2)"
    and "getRows_skill d skills_sql [PStr (wrap u1)] = Returns skills1"
    and "getRows_skill d skills_sql [PStr (wrap u2)] = Returns skills2"
    and "getRows_score d top_scores_sql [PStr (wrap u1)] = Returns scores1"
    and "getRows_score d top_scores_sql [PStr (wrap u2)] = Returns scores2"
    and "\<And>sql ps. getRows env sql ps = Returns (rows sql ps)"
    and "fresh = assemble p1 p2 skills1 skills2 scores1 scores2"
    and "type = (case type_arg of None \<Rightarrow> ''all'' | Some t \<Rightarrow> t)"
    and "found =
      \<lparr> res_players = (if type = ''all'' \<or> type = ''players''
                        then Some (rows search_players_sql [PStr (wrap term), limit]) else None),
        res_beatmaps = (if type = ''all'' \<or> type = ''beatmaps''
                         then Some (rows search_beatmaps_sql [PStr (wrap term), limit]) else None),
        res_scores = (if type = ''all'' \<or> type = ''scores''
                       then Some (rows search_scores_sql [PStr (wrap term), limit]) else None) \<rparr>"
  shows "fst (compare_handler cache d u1 u2) =
     (case cache_get cache (generateKey cache ''compare'' [u1, u2]) of
        Raises \<Rightarrow> (500, Failure ''Internal server error'')
      | Returns (Some data) \<Rightarrow> (200, Success data)
      | Returns None \<Rightarrow>
          (case cache_set cache (generateKey cache ''compare'' [u1, u2]) fresh 600 of
             Raises \<Rightarrow> (500, Failure ''Internal server error'')
           | Returns u \<Rightarrow> (200, Success fresh)))
   \<and> search_handler env term type_arg limit =
     (case getSearchCache env term type of
        Raises \<Rightarrow> (500, Failure ''Internal server error'')
      | Returns (Some data) \<Rightarrow>
          (200, Success \<lparr> payload_query = term, payload_type = type, payload_data = data \<rparr>)
      | Returns None \<Rightarrow>
          (case cacheSearch env term type found 600 of
             Raises \<Rightarrow> (500, Failure ''Internal server error'')
           | Returns u \<Rightarrow>
               (200, Success \<lparr> payload_query = term, payload_type = type,
                                payload_data = found \<rparr>)))"
proof -
  have c: "fst (compare_handler cache d u1 u2) =
     (case cache_get cache (generateKey cache ''compare'' [u1, u2]) of
        Raises \<Rightarrow> (500, Failure ''Internal server error'')
      | Returns (Some data) \<Rightarrow> (200, Success data)
      | Returns None \<Rightarrow>
          (case cache_set cache (generateKey cache ''compare'' [u1, u2]) fresh 600 of
             Raises \<Rightarrow> (500, Failure ''Internal server error'')
           | Returns u \<Rightarrow> (200, Success fresh)))"
    using assms(1-6) unfolding assms(8)
    by (simp add: compare_handler_def internal_error_def Let_def split: outcome.splits option.splits)
  have b1: "search_block env type ''players'' search_players_sql [PStr (wrap term), limit]
      = Returns (res_players found)"
    by (simp add: search_block_def assms(7) assms(10))
  have b2: "search_block env type ''beatmaps'' search_beatmaps_sql [PStr (wrap term), limit]
      = Returns (res_beatmaps found)"
    by (simp add: search_block_def assms(7) assms(10))
  have b3: "search_block env type ''scores'' search_scores_sql [PStr (wrap term), limit]
      = Returns (res_scores found)"
    by (simp add: search_block_def assms(7) assms(10))
  have e: "\<lparr> res_players = res_players found, res_beatmaps = res_beatmaps found,
             res_scores = res_scores found \<rparr> = found"
    by simp
  have t: "search_handler env term type_arg limit =
     (case getSearchCache env term type of
        Raises \<Rightarrow> (500, Failure ''Internal server error'')
      | Returns (Some data) \<Rightarrow>
          (200, Success \<lparr> payload_query = term, payload_type = type, payload_data = data \<rparr>)
      | Returns None \<Rightarrow>
          (case cacheSearch env term type found 600 of
             Raises \<Rightarrow> (500, Failure ''Internal server error'')
           | Returns u \<Rightarrow>
               (200, Success \<lparr> payload_query = term, payload_type = type,
                                payload_data = found \<rparr>)))"
    unfolding search_handler_def Let_def assms(9) [symmetric] b1 b2 b3 outcome.case e
      internal_error_def
    by (rule refl)
  show ?thesis using c t by simp
qed

theorem cache_fault_is_request_failure_example:
  "fst (compare_handler cache_get_raises (table_db [alice, bob]) ''alice'' ''bob'')
     = (500, Failure ''Internal server error'')
   \<and> search_handler search_set_raises ''ali'' (Some ''players'') (PNum 20)
     = (500, Failure ''Internal server error'')
   \<and> fst (compare_handler cache_empty (table_db [alice, bob]) ''alice'' ''bob'')
     = (200, Success (assemble alice bob [] [] [] []))"
proof -
  let ?d = "table_db [alice, bob]"
  have p1: "getRow_player ?d player_sql [PStr (wrap ''alice'')] = Returns (Some alice)"
    by (simp add: table_db_lookup table_lookup_def ilike_def to_lower_def wrap_def alice_def bob_def)
  have p2: "getRow_player ?d player_sql [PStr (wrap ''bob'')] = Returns (Some bob)"
    by (simp add: table_db_lookup table_lookup_def ilike_def to_lower_def wrap_def alice_def bob_def)
  have sk: "getRows_skill ?d sql ps = Returns []" for sql ps by (simp add: table_db_def)
  have sc: "getRows_score ?d sql ps = Returns []" for sql ps by (simp add: table_db_def)
  have r: "getRows search_set_raises sql ps = Returns ((\<lambda>sql ps. [''row'']) sql ps)" for sql ps
    by (simp add: search_set_raises_def)
  show ?thesis
    using cache_fault_is_request_failure [OF p1 p2 sk sk sc sc r refl refl refl,
        of cache_get_raises "''ali''" "Some ''players''" "PNum 20"]
      cache_fault_is_request_failure [OF p1 p2 sk sk sc sc r refl refl refl,
        of cache_empty "''ali''" "Some ''players''" "PNum 20"]
    by (simp add: cache_get_raises_def cache_empty_def search_set_raises_def)
qed

text \<open>
  The claim as stated (a cache fault still gives a successful, freshly computed
  result) fails: with a storage that holds both players, a cache whose reads raise and
  a cache whose writes raise both give 500, in the comparison and in the search.
\<close>

theorem cache_fault_counterexample:
  "fst (compare_handler cache_get_raises (table_db [alice, bob]) ''alice'' ''bob'')
     = (500, Failure ''Internal server error'')
   \<and> fst (compare_handler cache_set_raises (table_db [alice, bob]) ''alice'' ''bob'')
     = (500, Failure ''Internal server error'')
   \<and> search_handler search_get_raises ''ali'' None (PNum 20)
     = (500, Failure ''Internal server error'')
   \<and> search_handler search_set_raises ''ali'' None (PNum 20)
     = (500, Failure ''Internal server error'')"
  by (simp add: compare_handler_def cache_get_raises_def cache_set_raises_def table_db_def
      table_lookup_def ilike_def to_lower_def wrap_def alice_def bob_def internal_error_def
      search_handler_def search_block_def search_get_raises_def search_set_raises_def Let_def)

section \<open>The player search\<close>

text \<open>
  For a \<^verbatim>\<open>sortBy\<close> that is not the name of a property of \<^verbatim>\<open>Object.prototype\<close>, the
  \<^verbatim>\<open>ORDER BY\<close> text is the entry of the allow-list, or the default entry when there
  is none.
\<close>

lemma orderBy_allow_list:
  assumes "sortBy \<notin> set (map fst Object_prototype)"
  shows "orderBy (Some sortBy) =
          (case map_of sortColumns sortBy of Some v \<Rightarrow> v | None \<Rightarrow> ''weighted_pp DESC'')"
proof -
  have "map_of Object_prototype sortBy = None"
    using assms by (simp add: map_of_eq_None_iff)
  then show ?thesis
    by (simp add: orderBy_def get_property_def truthy_def to_text_def sortColumns_def)
qed

text \<open>
  Claim C5. The \<^verbatim>\<open>ORDER BY\<close> text is not always drawn from the allow-list: for
  \<^verbatim>\<open>sortBy = 'constructor'\<close> the lookup \<^verbatim>\<open>sortColumns[sortBy]\<close> finds the property
  inherited from \<^verbatim>\<open>Object.prototype\<close>, which is truthy, so there is no fallback to the
  default and the text interpolated into the query is that of a built-in function.
\<close>

theorem orderBy_inherited_property:
  "orderBy (Some ''constructor'') = ''function Object() { [native code] }''
   \<and> orderBy (Some ''constructor'') \<notin> set (map snd sortColumns)
   \<and> orderBy (Some ''constructor'') \<noteq> orderBy None
   \<and> fst (players_search_query ''ab'' (Some ''constructor'') (PNum 20)) =
       ''\<newline>        SELECT \<newline>          username, \<newline>          user_id, \<newline>          weighted_pp, \<newline>          accuracy_avg,\<newline>          first_places, \<newline>          total_scores,\<newline>          avatar_url, \<newline>          country_rank,\<newline>          last_seen\<newline>        FROM player_stats\<newline>        WHERE username ILIKE $1 AND is_active = true\<newline>        ORDER BY function Object() { [native code] }\<newline>        LIMIT $2\<newline>      ''"
  by (simp add: orderBy_def get_property_def sortColumns_def Object_prototype_def truthy_def
      to_text_def players_search_query_def players_search_sql_def)

section \<open>The advanced search\<close>

lemma foldl_add_clause:
  "foldl add_clause q cs =
     q \<lparr> appended := appended q @ fragments_from (Suc (paramCount q)) (active cs),
         params := params q @ map (\<lambda>c. snd (snd c)) (active cs),
         paramCount := paramCount q + length (active cs) \<rparr>"
proof (induction cs arbitrary: q)
  case Nil
  then show ?case by (simp add: active_def)
next
  case (Cons c cs)
  have "foldl add_clause q (c # cs) = foldl add_clause (add_clause q c) cs" by simp
  also have "\<dots> = (add_clause q c)
     \<lparr> appended := appended (add_clause q c) @ fragments_from (Suc (paramCount (add_clause q c))) (active cs),
       params := params (add_clause q c) @ map (\<lambda>c. snd (snd c)) (active cs),
       paramCount := paramCount (add_clause q c) + length (active cs) \<rparr>"
    by (rule Cons.IH)
  also have "\<dots> = q \<lparr> appended := appended q @ fragments_from (Suc (paramCount q)) (active (c # cs)),
         params := params q @ map (\<lambda>c. snd (snd c)) (active (c # cs)),
         paramCount := paramCount q + length (active (c # cs)) \<rparr>"
    by (cases "fst c") (simp_all add: add_clause_def append_clause_def active_def Let_def)
  finally show ?case .
qed

lemma length_fragments_from: "length (fragments_from n cs) = length cs"
  by (induction cs arbitrary: n) auto

lemma nth_fragments_from:
  "i < length cs \<Longrightarrow> fragments_from n cs ! i = fst (snd (cs ! i)) (n + i)"
proof (induction cs arbitrary: n i)
  case Nil
  then show ?case by simp
next
  case (Cons c cs)
  then show ?case by (cases i) simp_all
qed

lemma indices_fragments_from:
  assumes "\<And>c n. c \<in> set cs \<Longrightarrow> remdups (fragment_indices (fst (snd c) n)) = [n]"
  shows "map (remdups \<circ> fragment_indices) (fragments_from n cs) = map (\<lambda>i. [i]) [n ..< n + length cs]"
proof (rule nth_equalityI)
  show "length (map (remdups \<circ> fragment_indices) (fragments_from n cs))
        = length (map (\<lambda>i. [i]) [n ..< n + length cs])"
    by (simp add: length_fragments_from)
next
  fix i
  assume "i < length (map (remdups \<circ> fragment_indices) (fragments_from n cs))"
  then have i: "i < length cs" by (simp add: length_fragments_from)
  then have "remdups (fragment_indices (fragments_from n cs ! i)) = [n + i]"
    using assms [of "cs ! i" "n + i"] by (simp add: nth_fragments_from)
  then show "map (remdups \<circ> fragment_indices) (fragments_from n cs) ! i
             = map (\<lambda>i. [i]) [n ..< n + length cs] ! i"
    using i by (simp add: length_fragments_from)
qed

lemma player_clauses_single_index:
  "c \<in> set (player_clauses b) \<Longrightarrow> remdups (fragment_indices (fst (snd c) n)) = [n]"
  by (auto simp: player_clauses_def Let_def fragment_indices_def)

lemma score_clauses_single_index:
  "c \<in> set (score_clauses getTime b) \<Longrightarrow> remdups (fragment_indices (fst (snd c) n)) = [n]"
  by (auto simp: score_clauses_def Let_def fragment_indices_def)

lemma built_query:
  "append_pagination ol l off
      (foldl add_clause \<lparr> base = bs, appended = [], params = [], paramCount = 0 \<rparr> cs)
   = \<lparr> base = bs,
       appended = fragments_from (Suc 0) (active cs)
         @ [[Lit ol, Idx (length (active cs) + 1), Lit '' OFFSET '', Idx (length (active cs) + 2)]],
       params = map (\<lambda>c. snd (snd c)) (active cs) @ [l, off],
       paramCount = length (active cs) + 2 \<rparr>"
  by (simp add: append_pagination_def Let_def foldl_add_clause)

lemma built_query_indices:
  assumes "\<And>c n. c \<in> set cs \<Longrightarrow> remdups (fragment_indices (fst (snd c) n)) = [n]"
  shows "map (remdups \<circ> fragment_indices)
           (fragments_from (Suc 0) (active cs)
            @ [[Lit ol, Idx (length (active cs) + 1), Lit oo, Idx (length (active cs) + 2)]])
         = map (\<lambda>i. [i]) [1 ..< Suc (length (active cs))]
           @ [[length (active cs) + 1, length (active cs) + 2]]"
proof -
  have act: "\<And>c n. c \<in> set (active cs) \<Longrightarrow> remdups (fragment_indices (fst (snd c) n)) = [n]"
    using assms by (simp add: active_def)
  show ?thesis
    using indices_fragments_from [of "active cs" "Suc 0", OF act]
    by (simp add: fragment_indices_def)
qed

text \<open>
  The text of a query depends on the guards alone: two requests whose filters pass the
  same guards give the same text, whatever the values are. The values are in the
  parameter list.
\<close>

lemma fragments_from_shape:
  assumes "map (\<lambda>c. (fst c, fst (snd c))) cs = map (\<lambda>c. (fst c, fst (snd c))) cs'"
  shows "fragments_from n (active cs) = fragments_from n (active cs')
       \<and> length (active cs) = length (active cs')"
  using assms
proof (induction cs arbitrary: cs' n)
  case Nil
  then show ?case by (simp add: active_def)
next
  case (Cons c cs)
  then obtain c' cs'' where cs': "cs' = c' # cs''" by (cases cs') auto
  with Cons.prems have hd: "fst c = fst c'" "fst (snd c) = fst (snd c')"
    and tl: "map (\<lambda>c. (fst c, fst (snd c))) cs = map (\<lambda>c. (fst c, fst (snd c))) cs''"
    by simp_all
  from Cons.IH [OF tl] have ih: "\<And>n. fragments_from n (active cs) = fragments_from n (active cs'')"
    "length (active cs) = length (active cs'')" by (simp_all add: active_def)
  show ?case using hd ih by (simp add: cs' active_def)
qed

lemma player_text_independent_of_values:
  assumes "map fst (player_clauses b) = map fst (player_clauses b')"
  shows "query_text (player_query b) = query_text (player_query b')"
proof -
  have "map (\<lambda>c. (fst c, fst (snd c))) (player_clauses b)
      = map (\<lambda>c. (fst c, fst (snd c))) (player_clauses b')"
    using assms by (simp add: player_clauses_def Let_def)
  from fragments_from_shape [OF this] show ?thesis
    by (simp add: player_query_def built_query query_text_def)
qed

lemma score_text_independent_of_values:
  assumes "map fst (score_clauses getTime b) = map fst (score_clauses getTime' b')"
  shows "query_text (score_query getTime b) = query_text (score_query getTime' b')"
proof -
  have "map (\<lambda>c. (fst c, fst (snd c))) (score_clauses getTime b)
      = map (\<lambda>c. (fst c, fst (snd c))) (score_clauses getTime' b')"
    using assms by (simp add: score_clauses_def Let_def)
  from fragments_from_shape [OF this] show ?thesis
    by (simp add: score_query_def built_query query_text_def)
qed

text \<open>
  With \<open>k\<close> the number of \<^verbatim>\<open>if\<close> statements of a block whose guard holds, the
  query built has \<open>k\<close> conditional fragments followed by the pagination fragment,
  the \<open>i\<close>-th conditional fragment interpolates the index \<open>i\<close> and no other (once or
  several times), the pagination fragment interpolates \<open>k + 1\<close> and \<open>k + 2\<close>,
  \<^verbatim>\<open>paramCount\<close> ends at \<open>k + 2\<close>, and the parameter list has \<open>k + 2\<close> elements.
\<close>

lemma advanced_query_lockstep:
  "length (appended (player_query b)) = length (active (player_clauses b)) + 1
   \<and> map (remdups \<circ> fragment_indices) (appended (player_query b))
       = map (\<lambda>i. [i]) [1 ..< Suc (length (active (player_clauses b)))]
         @ [[length (active (player_clauses b)) + 1, length (active (player_clauses b)) + 2]]
   \<and> length (params (player_query b)) = length (active (player_clauses b)) + 2
   \<and> paramCount (player_query b) = length (active (player_clauses b)) + 2
   \<and> length (appended (score_query getTime b)) = length (active (score_clauses getTime b)) + 1
   \<and> map (remdups \<circ> fragment_indices) (appended (score_query getTime b))
       = map (\<lambda>i. [i]) [1 ..< Suc (length (active (score_clauses getTime b)))]
         @ [[length (active (score_clauses getTime b)) + 1,
             length (active (score_clauses getTime b)) + 2]]
   \<and> length (params (score_query getTime b)) = length (active (score_clauses getTime b)) + 2
   \<and> paramCount (score_query getTime b) = length (active (score_clauses getTime b)) + 2"
  unfolding player_query_def score_query_def built_query
  using built_query_indices [of "player_clauses b", OF player_clauses_single_index]
    built_query_indices [of "score_clauses getTime b", OF score_clauses_single_index]
  by (simp add: length_fragments_from)

text \<open>
  The search fragment of the score query interpolates its index three times. A
  filter that is supplied but does not pass its guard adds nothing: a request with a
  search string and the filters \<^verbatim>\<open>minPP = 100\<close>, \<^verbatim>\<open>maxAccuracy = 0.9\<close> and
  \<^verbatim>\<open>maxPP = 20000\<close> gets three conditional fragments.
\<close>

lemma advanced_query_index_example:
  "placeholders (score_query (\<lambda>s. PNaN) body_ab) = [1, 1, 1, 2, 3]
   \<and> params (score_query (\<lambda>s. PNaN) body_ab) = [PStr ''%ab%'', PNum 20, PNum 0]
   \<and> placeholders (score_query (\<lambda>s. PNaN) body_ab)
       \<noteq> [1 ..< Suc (length (params (score_query (\<lambda>s. PNaN) body_ab)))]
   \<and> length (appended (player_query body_three)) = 3 + 1
   \<and> params (player_query body_three)
       = [PStr ''%x%'', PNum 100, PNum (9 / 10), PNum 10, PNum 30]"
  by (simp add: placeholders_def score_query_def score_clauses_def player_query_def
      player_clauses_def body_ab_def body_three_def dflt_def
      no_filters_def add_clause_def append_clause_def append_pagination_def fragment_indices_def
      wrap_def parseInt_def Let_def upt_rec)

text \<open>
  Claim C4. The fragments do not carry positional placeholders: the template
  literals interpolate \<^verbatim>\<open>${++paramCount}\<close> with no \<^verbatim>\<open>$\<close> before it, so for a request
  with the search string \<^verbatim>\<open>ab\<close> and no filter both queries hold the bare numbers 1,
  2 and 3 where the placeholders \<^verbatim>\<open>$1\<close>, \<^verbatim>\<open>$2\<close> and \<^verbatim>\<open>$3\<close> belong, and no \<^verbatim>\<open>$\<close> at
  all, while three parameters are bound. The query of \<^verbatim>\<open>GET /players\<close> does write
  its placeholders with the \<^verbatim>\<open>$\<close>.
\<close>

theorem advanced_query_placeholders_missing:
  "query_text (player_query body_ab) =
     player_base @ '' AND username ILIKE 1 ORDER BY weighted_pp DESC LIMIT 2 OFFSET 3''
   \<and> params (player_query body_ab) = [PStr ''%ab%'', PNum 20, PNum 0]
   \<and> query_text (score_query (\<lambda>s. PNaN) body_ab) =
     score_base @ '' AND (beatmap_title ILIKE 1 OR artist ILIKE 1 OR username ILIKE 1) ORDER BY pp DESC LIMIT 2 OFFSET 3''
   \<and> params (score_query (\<lambda>s. PNaN) body_ab) = [PStr ''%ab%'', PNum 20, PNum 0]
   \<and> CHR ''$'' \<notin> set (query_text (player_query body_ab))
   \<and> CHR ''$'' \<notin> set (query_text (score_query (\<lambda>s. PNaN) body_ab))
   \<and> CHR ''$'' \<in> set (players_search_sql None)
   \<and> advanced_queries (\<lambda>s. PNaN) body_ab =
       [(query_text (player_query body_ab), params (player_query body_ab)),
        (query_text (score_query (\<lambda>s. PNaN) body_ab), params (score_query (\<lambda>s. PNaN) body_ab))]"
  by (simp add: query_text_def render_def player_query_def player_clauses_def score_query_def
      score_clauses_def body_ab_def advanced_queries_def
      dflt_def no_filters_def add_clause_def append_clause_def append_pagination_def wrap_def
      parseInt_def digit_char_def player_base_def score_base_def players_search_sql_def Let_def)

text \<open>
  Claim C8, as amended. In both queries the parameter list is the values of the
  active filters followed by \<^verbatim>\<open>parseInt(limit)\<close> and \<^verbatim>\<open>parseInt(offset)\<close>, in that
  order: the two pagination parameters are always the last two, and they are bound as
  \<^verbatim>\<open>parseInt\<close> returns them, with no check of their sign and no upper bound on
  \<^verbatim>\<open>limit\<close>.
\<close>

theorem pagination_last_two:
  "params (player_query b) =
     map (\<lambda>c. snd (snd c)) (active (player_clauses b))
     @ [parseInt (dflt 20 (body_limit b)), parseInt (dflt 0 (body_offset b))]
   \<and> params (score_query getTime b) =
     map (\<lambda>c. snd (snd c)) (active (score_clauses getTime b))
     @ [parseInt (dflt 20 (body_limit b)), parseInt (dflt 0 (body_offset b))]"
  unfolding player_query_def score_query_def built_query
  by simp

text \<open>
  The claim as stated fails: a negative \<^verbatim>\<open>limit\<close> and a negative \<^verbatim>\<open>offset\<close> are bound
  as they are, and so is a \<^verbatim>\<open>limit\<close> of one million.
\<close>

theorem pagination_last_two_counterexample:
  "params (player_query body_negative) = [PNum (- 5), PNum (- 3)]
   \<and> params (score_query (\<lambda>s. PNaN) body_huge) = [PNum 1000000, PNum 0]"
  by (simp add: player_query_def player_clauses_def score_query_def score_clauses_def
      body_negative_def body_huge_def dflt_def no_filters_def add_clause_def append_clause_def
      append_pagination_def parseInt_def Let_def)

end
